theory Spec2Isabelle
  imports Complex_Main "HOL-Library.Log_Nat"
begin

section \<open>Python values and the built-ins that kspace.py uses\<close>

text \<open>
  The module is dynamically typed: a raw point may be a number, a string or a
  sequence of such values.  The values modelled are integers, floats, booleans,
  strings, tuples and lists; other sized containers (sets, dictionaries, arrays)
  are not.  A Python float is a binary64 number and is modelled by the rational
  number it is; the module itself never computes with floats, only numpy's
  \<open>linspace\<close> does, and its rounding is modelled there.
\<close>

datatype py_error = TypeError | IndexError | ValueError

datatype pyval =
    PyInt int
  | PyFloat rat
  | PyBool bool
  | PyStr string
  | PyTuple "pyval list"
  | PyList "pyval list"

text \<open>Sequencing of computations that may raise: the first exception wins.\<close>

definition py_bind :: "py_error + 'a \<Rightarrow> ('a \<Rightarrow> py_error + 'b) \<Rightarrow> py_error + 'b" where
  "py_bind m f = (case m of Inl e \<Rightarrow> Inl e | Inr v \<Rightarrow> f v)"

text \<open>\<open>len(item)\<close>: numbers and booleans have no length and raise TypeError.\<close>

fun py_len :: "pyval \<Rightarrow> py_error + nat" where
  "py_len (PyStr s) = Inr (length s)"
| "py_len (PyTuple xs) = Inr (length xs)"
| "py_len (PyList xs) = Inr (length xs)"
| "py_len (PyInt i) = Inl TypeError"
| "py_len (PyFloat r) = Inl TypeError"
| "py_len (PyBool b) = Inl TypeError"

text \<open>\<open>hasattr(item, 'isalnum')\<close>: only strings have that method.\<close>

fun hasattr_isalnum :: "pyval \<Rightarrow> bool" where
  "hasattr_isalnum (PyStr s) = True"
| "hasattr_isalnum (PyInt i) = False"
| "hasattr_isalnum (PyFloat r) = False"
| "hasattr_isalnum (PyBool b) = False"
| "hasattr_isalnum (PyTuple xs) = False"
| "hasattr_isalnum (PyList xs) = False"

text \<open>\<open>item[i]\<close> for a non-negative index \<open>i\<close>.\<close>

fun py_getitem :: "pyval \<Rightarrow> nat \<Rightarrow> py_error + pyval" where
  "py_getitem (PyTuple xs) i = (if i < length xs then Inr (xs ! i) else Inl IndexError)"
| "py_getitem (PyList xs) i = (if i < length xs then Inr (xs ! i) else Inl IndexError)"
| "py_getitem (PyStr s) i = (if i < length s then Inr (PyStr [s ! i]) else Inl IndexError)"
| "py_getitem (PyInt n) i = Inl TypeError"
| "py_getitem (PyFloat r) i = Inl TypeError"
| "py_getitem (PyBool b) i = Inl TypeError"

text \<open>\<open>item[0:n]\<close>: a slice never raises on a sequence and keeps its type.\<close>

fun py_slice_to :: "pyval \<Rightarrow> nat \<Rightarrow> py_error + pyval" where
  "py_slice_to (PyTuple xs) n = Inr (PyTuple (take n xs))"
| "py_slice_to (PyList xs) n = Inr (PyList (take n xs))"
| "py_slice_to (PyStr s) n = Inr (PyStr (take n s))"
| "py_slice_to (PyInt k) n = Inl TypeError"
| "py_slice_to (PyFloat r) n = Inl TypeError"
| "py_slice_to (PyBool b) n = Inl TypeError"

text \<open>\<open>tuple(item)\<close>.\<close>

fun py_tuple :: "pyval \<Rightarrow> py_error + pyval" where
  "py_tuple (PyTuple xs) = Inr (PyTuple xs)"
| "py_tuple (PyList xs) = Inr (PyTuple xs)"
| "py_tuple (PyStr s) = Inr (PyTuple (map (\<lambda>c. PyStr [c]) s))"
| "py_tuple (PyInt k) = Inl TypeError"
| "py_tuple (PyFloat r) = Inl TypeError"
| "py_tuple (PyBool b) = Inl TypeError"

text \<open>Truth value of an object, as \<open>if\<close> and \<open>and\<close> test it.\<close>

fun truthy :: "pyval \<Rightarrow> bool" where
  "truthy (PyInt i) = (i \<noteq> 0)"
| "truthy (PyFloat r) = (r \<noteq> 0)"
| "truthy (PyBool b) = b"
| "truthy (PyStr s) = (s \<noteq> [])"
| "truthy (PyTuple xs) = (xs \<noteq> [])"
| "truthy (PyList xs) = (xs \<noteq> [])"

section \<open>The collaborators \<open>defaults\<close> and \<open>log\<close>\<close>

text \<open>
  The module \<open>defaults\<close> is imported by kspace.py but is not part of it; the four
  names that kspace.py reads are taken as a parameter of every operation.  The
  module \<open>log\<close> is a message sink; the warnings a call emits are collected, in
  order, in a list that the call returns.
\<close>

record defaults =
  default_k_interpolation :: int
  k_interpolation_function :: string
  k_uniform_interpolation_function :: string
  newmpb :: bool

definition truncation_warning :: string where
  "truncation_warning =
     ''KSpace: a point has been supplied with length > 3. '' @
     ''I will only use the first 3 entries.''"

definition fallback_warning :: string where
  "fallback_warning =
     ''Requested kinterpolate_uniform function in KSpace, '' @
     ''but this is only available starting from MPB v.1.5. '' @
     ''Will fall back to simple interpolate function.''"

section \<open>class KSpace\<close>

text \<open>
  The instance dictionary: the four attributes that \<open>__init__\<close> assigns, and the
  attributes that \<open>self.__dict__.update(kwargs)\<close> adds.  The keyword arguments
  cannot carry one of the four attribute names, since these are the names of the
  constructor's own parameters.  They can carry the name of a method, which
  then shadows the method on this object (see \<open>lookup_method\<close>).
\<close>

record KSpace =
  k_interpolation :: int
  use_uniform_interpolation :: bool
  points_list :: "pyval list"
  point_labels :: "string list"
  extras :: "string \<rightharpoonup> pyval"

text \<open>
  What a call of \<open>__init__\<close> leaves behind: the object, the content of the
  caller's \<open>point_labels\<close> list object after the call (the constructor extends
  that list in place), and the warnings sent to \<open>log\<close>.
\<close>

record init_result =
  self :: KSpace
  point_labels_arg :: "string list"
  warnings :: "string list"

text \<open>
  The \<open>try\<close> block of the loop body: the effective length of an item.  Only
  TypeError is caught.
\<close>

definition item_length :: "pyval \<Rightarrow> py_error + nat" where
  "item_length item =
     (case py_len item of
        Inr n \<Rightarrow> if hasattr_isalnum item then Inr 0 else Inr n
      | Inl TypeError \<Rightarrow> Inr 0
      | Inl e \<Rightarrow> Inl e)"

text \<open>
  One iteration of \<open>for item in points_list\<close>, on the loop state
  (\<open>three_list\<close>, warnings so far).
\<close>

definition append_point ::
  "pyval \<Rightarrow> pyval list \<times> string list \<Rightarrow> py_error + pyval list \<times> string list" where
  "append_point item st =
     (case st of (three_list, lg) \<Rightarrow>
        py_bind (item_length item) (\<lambda>len.
          if len = 0 then Inr (three_list @ [PyTuple [item, PyInt 0, PyInt 0]], lg)
          else if len = 1 then
            py_bind (py_getitem item 0) (\<lambda>a.
              Inr (three_list @ [PyTuple [a, PyInt 0, PyInt 0]], lg))
          else if len = 2 then
            py_bind (py_getitem item 0) (\<lambda>a.
            py_bind (py_getitem item 1) (\<lambda>b.
              Inr (three_list @ [PyTuple [a, b, PyInt 0]], lg)))
          else if len = 3 then
            py_bind (py_tuple item) (\<lambda>t. Inr (three_list @ [t], lg))
          else
            py_bind (py_slice_to item 3) (\<lambda>s.
            py_bind (py_tuple s) (\<lambda>t.
              Inr (three_list @ [t], lg @ [truncation_warning])))))"

fun build_three_list ::
  "pyval list \<Rightarrow> pyval list \<times> string list \<Rightarrow> py_error + pyval list \<times> string list" where
  "build_three_list [] st = Inr st"
| "build_three_list (item # rest) st = py_bind (append_point item st) (build_three_list rest)"

text \<open>
  \<open>KSpace.__init__(self, points_list, k_interpolation, use_uniform_interpolation,
  point_labels, **kwargs)\<close>.  The default values of the optional parameters are
  supplied by the caller of the model.
\<close>

definition KSpace_init ::
  "defaults \<Rightarrow> pyval list \<Rightarrow> int \<Rightarrow> bool \<Rightarrow> string list \<Rightarrow> (string \<rightharpoonup> pyval)
     \<Rightarrow> py_error + init_result" where
  "KSpace_init d pts k_interp uniform labels_arg kwargs =
     py_bind (build_three_list pts ([], [])) (\<lambda>st.
       case st of (three_list, lg) \<Rightarrow>
         let pllen = length labels_arg;
             labels_arg' =
               (if pllen \<noteq> 0 \<and> pllen < length three_list
                then labels_arg @ replicate (length three_list - pllen) []
                else labels_arg);
             local_labels = take (length three_list) labels_arg';
             fallback = (uniform \<and> \<not> newmpb d)
         in Inr \<lparr> self = \<lparr> k_interpolation = k_interp,
                           use_uniform_interpolation = (if fallback then False else uniform),
                           points_list = three_list,
                           point_labels = local_labels,
                           extras = kwargs \<rparr>,
                  point_labels_arg = labels_arg',
                  warnings = (if fallback then lg @ [fallback_warning] else lg) \<rparr>)"

subsection \<open>The methods\<close>

text \<open>
  \<open>self.name(...)\<close> looks the name up in the instance dictionary first.  An
  extra attribute with the name of a method shadows the method, and none of the
  modelled values is callable: the call raises TypeError.
\<close>

definition lookup_method :: "KSpace \<Rightarrow> string \<Rightarrow> py_error + unit" where
  "lookup_method k name = (case extras k name of None \<Rightarrow> Inr () | Some v \<Rightarrow> Inl TypeError)"

text \<open>\<open>points()\<close>, \<open>has_labels()\<close>, \<open>labels()\<close> and \<open>count_interpolated()\<close>.\<close>

definition points :: "KSpace \<Rightarrow> py_error + pyval list" where
  "points k = py_bind (lookup_method k ''points'') (\<lambda>m. Inr (points_list k))"

text \<open>
  \<open>len(self.point_labels) and len(self.points()) == len(self.point_labels)\<close>:
  Python's \<open>and\<close> returns its left operand when that is false (here the integer
  0), without evaluating the right one, and its right operand (a boolean)
  otherwise.
\<close>

definition has_labels :: "KSpace \<Rightarrow> py_error + pyval" where
  "has_labels k =
     py_bind (lookup_method k ''has_labels'') (\<lambda>m.
       let n = PyInt (int (length (point_labels k)))
       in if truthy n then
            py_bind (points k) (\<lambda>ps. Inr (PyBool (length ps = length (point_labels k))))
          else Inr n)"

definition labels :: "KSpace \<Rightarrow> py_error + string list" where
  "labels k =
     py_bind (lookup_method k ''labels'') (\<lambda>m.
     py_bind (has_labels k) (\<lambda>h.
       if truthy h then Inr (point_labels k) else Inr []))"

definition count_interpolated :: "KSpace \<Rightarrow> py_error + int" where
  "count_interpolated k =
     py_bind (lookup_method k ''count_interpolated'') (\<lambda>m.
     py_bind (points k) (\<lambda>ps.
       Inr ((int (length ps) - 1) * (k_interpolation k + 1) + 1)))"

subsection \<open>\<open>__str__\<close> and \<open>__repr__\<close>\<close>

definition newline :: string where
  "newline = [CHR 0x0A]"

definition digit_char :: "nat \<Rightarrow> char" where
  "digit_char n = ''0123456789'' ! n"

function str_nat :: "nat \<Rightarrow> string" where
  "str_nat n = (if n < 10 then [digit_char n] else str_nat (n div 10) @ [digit_char (n mod 10)])"
  by pat_completeness auto
termination
  by (relation "measure id") auto

declare str_nat.simps [simp del]

text \<open>The decimal numeral of an integer, as \<open>%i\<close> and \<open>str\<close> print it.\<close>

definition str_int :: "int \<Rightarrow> string" where
  "str_int i = (if i < 0 then CHR ''-'' # str_nat (nat (- i)) else str_nat (nat i))"

text \<open>
  \<open>'%s' % v\<close>: a string is inserted verbatim, an integer or boolean by its
  numeral or name.  The text Python prints for a float or a container is not
  modelled; it is the parameter \<open>fs\<close>.
\<close>

fun py_str :: "(pyval \<Rightarrow> string) \<Rightarrow> pyval \<Rightarrow> string" where
  "py_str fs (PyStr s) = s"
| "py_str fs (PyInt i) = str_int i"
| "py_str fs (PyBool b) = (if b then ''True'' else ''False'')"
| "py_str fs (PyFloat r) = fs (PyFloat r)"
| "py_str fs (PyTuple xs) = fs (PyTuple xs)"
| "py_str fs (PyList xs) = fs (PyList xs)"

text \<open>The two format strings, applied to their arguments.\<close>

definition vector3 :: "(pyval \<Rightarrow> string) \<Rightarrow> pyval \<Rightarrow> pyval \<Rightarrow> pyval \<Rightarrow> string" where
  "vector3 fs x y z =
     ''    (vector3 '' @ py_str fs x @ '' '' @ py_str fs y @ '' '' @ py_str fs z @ '')'' @ newline"

definition vector3_commented ::
  "(pyval \<Rightarrow> string) \<Rightarrow> pyval \<Rightarrow> pyval \<Rightarrow> pyval \<Rightarrow> string \<Rightarrow> string" where
  "vector3_commented fs x y z c =
     ''    (vector3 '' @ py_str fs x @ '' '' @ py_str fs y @ '' '' @ py_str fs z @ '')'' @ c
       @ newline"

text \<open>\<open>comments[i]\<close> on a Python list.\<close>

definition list_getitem :: "'a list \<Rightarrow> nat \<Rightarrow> py_error + 'a" where
  "list_getitem xs i = (if i < length xs then Inr (xs ! i) else Inl IndexError)"

text \<open>\<open>x, y, z = xyz\<close>: unpacking needs an iterable of exactly three elements.\<close>

fun py_unpack3 :: "pyval \<Rightarrow> py_error + pyval \<times> pyval \<times> pyval" where
  "py_unpack3 (PyTuple xs) =
     (case xs of [x, y, z] \<Rightarrow> Inr (x, y, z) | _ \<Rightarrow> Inl ValueError)"
| "py_unpack3 (PyList xs) =
     (case xs of [x, y, z] \<Rightarrow> Inr (x, y, z) | _ \<Rightarrow> Inl ValueError)"
| "py_unpack3 (PyStr s) =
     (case s of [x, y, z] \<Rightarrow> Inr (PyStr [x], PyStr [y], PyStr [z]) | _ \<Rightarrow> Inl ValueError)"
| "py_unpack3 (PyInt i) = Inl TypeError"
| "py_unpack3 (PyFloat r) = Inl TypeError"
| "py_unpack3 (PyBool b) = Inl TypeError"

text \<open>
  The generator of the labelled branch, joined:
  \<open>for i, xyz in enumerate(...)\<close>, starting at index \<open>i\<close>.
\<close>

fun commented_vectors ::
  "(pyval \<Rightarrow> string) \<Rightarrow> string list \<Rightarrow> nat \<Rightarrow> pyval list \<Rightarrow> py_error + string" where
  "commented_vectors fs comments i [] = Inr []"
| "commented_vectors fs comments i (xyz # rest) =
     py_bind (py_getitem xyz 0) (\<lambda>x.
     py_bind (py_getitem xyz 1) (\<lambda>y.
     py_bind (py_getitem xyz 2) (\<lambda>z.
     py_bind (list_getitem comments i) (\<lambda>c.
     py_bind (commented_vectors fs comments (Suc i) rest) (\<lambda>s.
       Inr (vector3_commented fs x y z c @ s))))))"

text \<open>The generator of the unlabelled branch, joined.\<close>

fun plain_vectors :: "(pyval \<Rightarrow> string) \<Rightarrow> pyval list \<Rightarrow> py_error + string" where
  "plain_vectors fs [] = Inr []"
| "plain_vectors fs (xyz # rest) =
     py_bind (py_unpack3 xyz) (\<lambda>t. case t of (x, y, z) \<Rightarrow>
     py_bind (plain_vectors fs rest) (\<lambda>s.
       Inr (vector3 fs x y z @ s)))"

text \<open>
  \<open>str(k)\<close>.  Python finds \<open>__str__\<close> on the class, so this call cannot be
  shadowed; the body calls \<open>self.points()\<close>, which can.
\<close>

definition KSpace_str :: "(pyval \<Rightarrow> string) \<Rightarrow> defaults \<Rightarrow> KSpace \<Rightarrow> py_error + string" where
  "KSpace_str fs d k =
     py_bind
       (if point_labels k \<noteq> [] then
          (let comments = map (\<lambda>pl. if pl \<noteq> [] then ''  ;'' @ pl else pl) (point_labels k)
           in py_bind (points k) (commented_vectors fs comments 0))
        else py_bind (points k) (plain_vectors fs))
       (\<lambda>vectors.
          let interpol_func =
                (if use_uniform_interpolation k then k_uniform_interpolation_function d
                 else k_interpolation_function d)
          in if k_interpolation k \<noteq> 0 then
               Inr (''('' @ interpol_func @ '' '' @ str_int (k_interpolation k) @ '' (list''
                      @ newline @ vectors @ ''))'')
             else Inr (''(list'' @ newline @ vectors @ '')''))"

text \<open>
  \<open>repr(k)\<close>.  The items of the instance dictionary, each as the pair of its key
  and the text of its value, in the order in which the dictionary yields them,
  are the parameter \<open>items\<close>.
\<close>

fun join_semicolon :: "string list \<Rightarrow> string" where
  "join_semicolon [] = []"
| "join_semicolon [s] = s"
| "join_semicolon (s # t # rest) = s @ ''; '' @ join_semicolon (t # rest)"

definition KSpace_repr :: "(KSpace \<Rightarrow> (string \<times> string) list) \<Rightarrow> KSpace \<Rightarrow> string" where
  "KSpace_repr items k =
     ''<kspace.KSpace object: ''
       @ join_semicolon (map (\<lambda>kv. fst kv @ ''='' @ snd kv) (items k)) @ ''>''"

subsection \<open>Calls as steps on the object\<close>

text \<open>
  A call of a method, as a step: what the call returns or raises, and the
  object after the call.  No method of the class assigns to an attribute of
  \<open>self\<close>, so each call leaves the object as it found it.
\<close>

datatype operation = M_str | M_repr | M_count_interpolated | M_points | M_has_labels | M_labels

datatype outcome =
    Out_text string
  | Out_int int
  | Out_value pyval
  | Out_points "pyval list"
  | Out_labels "string list"

definition call ::
  "(pyval \<Rightarrow> string) \<Rightarrow> (KSpace \<Rightarrow> (string \<times> string) list) \<Rightarrow> defaults \<Rightarrow> operation \<Rightarrow> KSpace
     \<Rightarrow> (py_error + outcome) \<times> KSpace" where
  "call fs items d m k =
     (case m of
        M_str \<Rightarrow> (py_bind (KSpace_str fs d k) (\<lambda>s. Inr (Out_text s)), k)
      | M_repr \<Rightarrow> (Inr (Out_text (KSpace_repr items k)), k)
      | M_count_interpolated \<Rightarrow> (py_bind (count_interpolated k) (\<lambda>n. Inr (Out_int n)), k)
      | M_points \<Rightarrow> (py_bind (points k) (\<lambda>ps. Inr (Out_points ps)), k)
      | M_has_labels \<Rightarrow> (py_bind (has_labels k) (\<lambda>h. Inr (Out_value h)), k)
      | M_labels \<Rightarrow> (py_bind (labels k) (\<lambda>ls. Inr (Out_labels ls)), k))"

text \<open>The object after a sequence of calls.\<close>

fun after_calls ::
  "(pyval \<Rightarrow> string) \<Rightarrow> (KSpace \<Rightarrow> (string \<times> string) list) \<Rightarrow> defaults \<Rightarrow> operation list
     \<Rightarrow> KSpace \<Rightarrow> KSpace" where
  "after_calls fs items d [] k = k"
| "after_calls fs items d (m # ms) k = after_calls fs items d ms (snd (call fs items d m k))"

section \<open>The presets\<close>

definition KSpaceTriangular_init :: "defaults \<Rightarrow> int \<Rightarrow> bool \<Rightarrow> py_error + init_result" where
  "KSpaceTriangular_init d k_interp uniform =
     KSpace_init d
       [PyTuple [PyInt 0, PyInt 0, PyInt 0], PyTuple [PyInt 0, PyFloat (1 / 2), PyInt 0],
        PyTuple [PyStr ''(/ -3)'', PyStr ''(/ 3)'', PyInt 0],
        PyTuple [PyInt 0, PyInt 0, PyInt 0]]
       k_interp uniform [''Gamma'', ''M'', ''K'', ''Gamma''] Map.empty"

definition KSpaceRectangular_init :: "defaults \<Rightarrow> int \<Rightarrow> bool \<Rightarrow> py_error + init_result" where
  "KSpaceRectangular_init d k_interp uniform =
     KSpace_init d
       [PyTuple [PyInt 0, PyInt 0, PyInt 0], PyTuple [PyFloat (1 / 2), PyInt 0, PyInt 0],
        PyTuple [PyFloat (1 / 2), PyFloat (1 / 2), PyInt 0],
        PyTuple [PyInt 0, PyInt 0, PyInt 0]]
       k_interp uniform [''Gamma'', ''X'', ''M'', ''Gamma''] Map.empty"

subsection \<open>binary64 arithmetic and \<open>numpy.linspace\<close>\<close>

text \<open>
  Rounding of a rational number to the nearest binary64 number, ties to the
  even significand: the number is scaled to a significand of 53 bits, which is
  rounded to an integer.  The exponent is not bounded: overflow and subnormal
  numbers are not modelled (they do not occur between -0.5 and 0.5 for any
  number of samples that fits in memory).
\<close>

definition round_half_even :: "rat \<Rightarrow> int" where
  "round_half_even r =
     (let f = \<lfloor>r\<rfloor>; d = r - of_int f
      in if d < 1 / 2 then f else if 1 / 2 < d then f + 1 else if even f then f else f + 1)"

text \<open>The exponent \<open>e\<close> of a number \<open>q\<close> other than 0: \<open>2 ^ e \<le> |q| < 2 ^ (e + 1)\<close>.\<close>

definition float_exponent :: "rat \<Rightarrow> int" where
  "float_exponent q =
     (case quotient_of \<bar>q\<bar> of (a, b) \<Rightarrow>
        let e0 = bitlen a - bitlen b in if 2 powi e0 \<le> \<bar>q\<bar> then e0 else e0 - 1)"

definition round_float64 :: "rat \<Rightarrow> rat" where
  "round_float64 q =
     (if q = 0 then 0
      else let ulp = 2 powi (float_exponent q - 52)
           in of_int (round_half_even (q / ulp)) * ulp)"

text \<open>
  \<open>numpy.linspace(start, stop, num)\<close> belongs to numpy, not to this repository.  It
  is modelled after numpy's implementation, for float arguments: a negative
  \<open>num\<close> raises ValueError; otherwise the result is
  \<open>arange(0, num) * step + start\<close> with \<open>step = (stop - start) / (num - 1)\<close>, every
  operation rounded to binary64, and its last element is set to \<open>stop\<close> when
  \<open>num > 1\<close>; for \<open>num = 1\<close> the step is not defined and the one element is
  \<open>0. * (stop - start) + start\<close>.  \<open>linspace_sample\<close> is element \<open>i\<close> before the
  last element is set.
\<close>

definition linspace_sample :: "rat \<Rightarrow> rat \<Rightarrow> int \<Rightarrow> nat \<Rightarrow> rat" where
  "linspace_sample start stop num i =
     (let delta = round_float64 (stop - start);
          y = round_float64 (of_nat i)
      in if 1 < num then
           let step = round_float64 (delta / round_float64 (of_int (num - 1)))
           in round_float64 (round_float64 (y * step) + start)
         else round_float64 (round_float64 (y * delta) + start))"

definition linspace :: "rat \<Rightarrow> rat \<Rightarrow> int \<Rightarrow> py_error + rat list" where
  "linspace start stop num =
     (if num < 0 then Inl ValueError
      else let y = map (linspace_sample start stop num) [0..<nat num]
           in Inr (if 1 < num then y[nat num - 1 := stop] else y))"

text \<open>A list comprehension whose element expression may raise.\<close>

fun map_result :: "('a \<Rightarrow> py_error + 'b) \<Rightarrow> 'a list \<Rightarrow> py_error + 'b list" where
  "map_result f [] = Inr []"
| "map_result f (x # xs) =
     py_bind (f x) (\<lambda>y. py_bind (map_result f xs) (\<lambda>ys. Inr (y # ys)))"

text \<open>
  The comprehension \<open>[(x, y, 0.0) for y in linspace(..., y_steps) for x in
  linspace(..., x_steps)]\<close>: the outer iterable is evaluated once, the inner one
  once for every \<open>y\<close> (and not at all when there is no \<open>y\<close>).
\<close>

definition grid_points :: "int \<Rightarrow> int \<Rightarrow> py_error + pyval list" where
  "grid_points x_steps y_steps =
     py_bind (linspace (- 1 / 2) (1 / 2) y_steps) (\<lambda>ys.
     py_bind
       (map_result
          (\<lambda>y. py_bind (linspace (- 1 / 2) (1 / 2) x_steps) (\<lambda>xs.
                 Inr (map (\<lambda>x. PyTuple [PyFloat x, PyFloat y, PyFloat 0]) xs)))
          ys)
       (\<lambda>rows. Inr (concat rows)))"

definition KSpaceRectangularGrid_init :: "defaults \<Rightarrow> int \<Rightarrow> int \<Rightarrow> py_error + init_result" where
  "KSpaceRectangularGrid_init d x_steps y_steps =
     py_bind (grid_points x_steps y_steps) (\<lambda>grid.
       KSpace_init d grid 0 False []
         [''x_steps'' \<mapsto> PyInt x_steps, ''y_steps'' \<mapsto> PyInt y_steps])"

section \<open>The specification's wording\<close>

text \<open>
  The normalization rules as the specification lists them, by the shape of the
  item: a sequence with no, one, two, three or more elements; a string or a
  value that is no sequence.
\<close>

fun spec_seq_point :: "pyval \<Rightarrow> pyval list \<Rightarrow> pyval" where
  "spec_seq_point item [] = PyTuple [item, PyInt 0, PyInt 0]"
| "spec_seq_point item [a] = PyTuple [a, PyInt 0, PyInt 0]"
| "spec_seq_point item [a, b] = PyTuple [a, b, PyInt 0]"
| "spec_seq_point item (a # b # c # rest) = PyTuple [a, b, c]"

fun spec_point :: "pyval \<Rightarrow> pyval" where
  "spec_point (PyTuple xs) = spec_seq_point (PyTuple xs) xs"
| "spec_point (PyList xs) = spec_seq_point (PyList xs) xs"
| "spec_point (PyStr s) = PyTuple [PyStr s, PyInt 0, PyInt 0]"
| "spec_point (PyInt i) = PyTuple [PyInt i, PyInt 0, PyInt 0]"
| "spec_point (PyFloat r) = PyTuple [PyFloat r, PyInt 0, PyInt 0]"
| "spec_point (PyBool b) = PyTuple [PyBool b, PyInt 0, PyInt 0]"

text \<open>The items that are truncated: sequences of more than three elements.\<close>

fun spec_truncated :: "pyval \<Rightarrow> bool" where
  "spec_truncated (PyTuple xs) = (3 < length xs)"
| "spec_truncated (PyList xs) = (3 < length xs)"
| "spec_truncated (PyStr s) = False"
| "spec_truncated (PyInt i) = False"
| "spec_truncated (PyFloat r) = False"
| "spec_truncated (PyBool b) = False"

definition spec_warnings :: "pyval list \<Rightarrow> string list" where
  "spec_warnings pts = replicate (length (filter spec_truncated pts)) truncation_warning"

text \<open>A stored point is exactly a 3-component tuple.\<close>

fun is_three_tuple :: "pyval \<Rightarrow> bool" where
  "is_three_tuple (PyTuple xs) = (length xs = 3)"
| "is_three_tuple (PyList xs) = False"
| "is_three_tuple (PyStr s) = False"
| "is_three_tuple (PyInt i) = False"
| "is_three_tuple (PyFloat r) = False"
| "is_three_tuple (PyBool b) = False"

text \<open>
  Label reconciliation: no labels stay no labels; a shorter list is padded with
  empty strings to \<open>n\<close> labels; a longer one is cut to \<open>n\<close> labels.
\<close>

definition spec_stored_labels :: "nat \<Rightarrow> string list \<Rightarrow> string list" where
  "spec_stored_labels n ls =
     (if ls = [] then []
      else if length ls < n then ls @ replicate (n - length ls) []
      else take n ls)"

text \<open>
  The output format: one line for a point, with the comment \<open>;LABEL\<close> after two
  blanks when the label is not empty.
\<close>

fun tuple_items :: "pyval \<Rightarrow> pyval list" where
  "tuple_items (PyTuple xs) = xs"
| "tuple_items (PyList xs) = xs"
| "tuple_items (PyStr s) = []"
| "tuple_items (PyInt i) = []"
| "tuple_items (PyFloat r) = []"
| "tuple_items (PyBool b) = []"

fun join_spaces :: "string list \<Rightarrow> string" where
  "join_spaces [] = []"
| "join_spaces [s] = s"
| "join_spaces (s # t # rest) = s @ '' '' @ join_spaces (t # rest)"

definition spec_line :: "(pyval \<Rightarrow> string) \<Rightarrow> pyval \<Rightarrow> string \<Rightarrow> string" where
  "spec_line fs p label =
     ''    (vector3 '' @ join_spaces (map (py_str fs) (tuple_items p)) @ '')''
       @ (if label = [] then [] else ''  ;'' @ label) @ newline"

text \<open>
  A path has labels when its stored label list is not empty and as long as its
  stored point list.  The lines of a path, in point order, are labelled when the
  path has labels.
\<close>

definition spec_has_labels :: "KSpace \<Rightarrow> bool" where
  "spec_has_labels k =
     (point_labels k \<noteq> [] \<and> length (point_labels k) = length (points_list k))"

definition spec_lines :: "(pyval \<Rightarrow> string) \<Rightarrow> KSpace \<Rightarrow> string list" where
  "spec_lines fs k =
     (if spec_has_labels k then map2 (spec_line fs) (points_list k) (point_labels k)
      else map (\<lambda>p. spec_line fs p []) (points_list k))"

text \<open>The element expression of the list \<open>comments\<close> in \<open>__str__\<close>.\<close>

definition comment_of :: "string \<Rightarrow> string" where
  "comment_of pl = (if pl \<noteq> [] then ''  ;'' @ pl else pl)"

text \<open>The invariant of the stored labels: there are none, or one for each point.\<close>

definition labels_invariant :: "KSpace \<Rightarrow> bool" where
  "labels_invariant k =
     (length (point_labels k) = 0 \<or> length (point_labels k) = length (points_list k))"

text \<open>
  The grid: for each \<open>y\<close> sample in order, all \<open>x\<close> samples in order, with third
  component \<open>0.0\<close>.
\<close>

definition spec_grid :: "rat list \<Rightarrow> rat list \<Rightarrow> pyval list" where
  "spec_grid xs ys =
     concat (map (\<lambda>y. map (\<lambda>x. PyTuple [PyFloat x, PyFloat y, PyFloat 0]) xs) ys)"

text \<open>
  \<open>n\<close> samples from -0.5 to 0.5: a single sample is -0.5; two or more samples
  start at -0.5, end at 0.5 and are evenly spaced up to the rounding of
  binary64: sample \<open>i\<close> is within \<open>2 ^ -50\<close> of \<open>-0.5 + i / (n - 1)\<close>.
\<close>

definition spec_samples :: "int \<Rightarrow> rat list \<Rightarrow> bool" where
  "spec_samples n xs =
     (length xs = nat n
      \<and> (n = 1 \<longrightarrow> xs = [- 1 / 2])
      \<and> (2 \<le> n \<longrightarrow>
            hd xs = - 1 / 2 \<and> last xs = 1 / 2
            \<and> list_all (\<lambda>i. \<bar>xs ! i - (- 1 / 2 + of_nat i / of_int (n - 1))\<bar> \<le> 1 / 2 ^ 50)
                 [0..<nat n]))"

subsection \<open>Concrete inputs\<close>

text \<open>
  Two configurations to evaluate the model at: one for an MPB that has
  \<open>kinterpolate-uniform\<close> and one for an older MPB.  \<open>sample_py_str\<close> prints the
  two floats that occur in the examples.  \<open>two_point_path k ls kw\<close> is the object
  that \<open>KSpace([0, 1], k, False, ls, **kw)\<close> constructs when \<open>ls\<close> has no or two
  labels.
\<close>

definition sample_defaults :: defaults where
  "sample_defaults =
     \<lparr> default_k_interpolation = 3,
       k_interpolation_function = ''interpolate'',
       k_uniform_interpolation_function = ''kinterpolate-uniform'',
       newmpb = True \<rparr>"

definition old_mpb_defaults :: defaults where
  "old_mpb_defaults = sample_defaults \<lparr> newmpb := False \<rparr>"

definition sample_py_str :: "pyval \<Rightarrow> string" where
  "sample_py_str v =
     (if v = PyFloat (1 / 2) then ''0.5'' else if v = PyFloat 0 then ''0.0'' else ''?'')"

definition two_point_path :: "int \<Rightarrow> string list \<Rightarrow> (string \<rightharpoonup> pyval) \<Rightarrow> KSpace" where
  "two_point_path k ls kw =
     \<lparr> k_interpolation = k, use_uniform_interpolation = False,
       points_list = [PyTuple [PyInt 0, PyInt 0, PyInt 0], PyTuple [PyInt 1, PyInt 0, PyInt 0]],
       point_labels = ls, extras = kw \<rparr>"

section \<open>The constructor computes the normalized path\<close>

lemma py_bind_Inr [simp]: "py_bind (Inr v) f = f v"
  by (simp add: py_bind_def)

lemma py_bind_Inl [simp]: "py_bind (Inl e) f = Inl e"
  by (simp add: py_bind_def)

lemma append_point_seq:
  assumes "item = PyTuple xs \<or> item = PyList xs"
  shows "append_point item (acc, lg) =
     Inr (acc @ [spec_seq_point item xs],
          lg @ (if 3 < length xs then [truncation_warning] else []))"
proof (cases "(item, xs)" rule: spec_seq_point.cases)
  case (1 it)
  with assms show ?thesis by (auto simp: append_point_def item_length_def)
next
  case (2 it a)
  with assms show ?thesis by (auto simp: append_point_def item_length_def)
next
  case (3 it a b)
  with assms show ?thesis by (auto simp: append_point_def item_length_def)
next
  case (4 it a b c rest)
  with assms show ?thesis
    by (cases rest) (auto simp: append_point_def item_length_def)
qed

lemma append_point_eq:
  "append_point item (acc, lg) =
     Inr (acc @ [spec_point item],
          lg @ (if spec_truncated item then [truncation_warning] else []))"
proof (cases item)
  case (PyTuple xs)
  then show ?thesis using append_point_seq [of item xs acc lg] by simp
next
  case (PyList xs)
  then show ?thesis using append_point_seq [of item xs acc lg] by simp
qed (simp_all add: append_point_def item_length_def)

lemma build_three_list_eq:
  "build_three_list pts (acc, lg) = Inr (acc @ map spec_point pts, lg @ spec_warnings pts)"
  by (induction pts arbitrary: acc lg)
     (simp_all add: append_point_eq spec_warnings_def replicate_app_Cons_same)

lemma is_three_tuple_spec_seq_point: "is_three_tuple (spec_seq_point item xs)"
  by (cases "(item, xs)" rule: spec_seq_point.cases) simp_all

lemma is_three_tuple_spec_point: "is_three_tuple (spec_point item)"
  by (cases item) (simp_all add: is_three_tuple_spec_seq_point)

text \<open>The constructor never raises on the modelled values, and this is its result.\<close>

lemma KSpace_init_eq:
  "KSpace_init d pts k u ls kw =
     Inr \<lparr> self = \<lparr> k_interpolation = k,
                     use_uniform_interpolation = (u \<and> newmpb d),
                     points_list = map spec_point pts,
                     point_labels = spec_stored_labels (length pts) ls,
                     extras = kw \<rparr>,
            point_labels_arg =
              (if ls \<noteq> [] \<and> length ls < length pts
               then ls @ replicate (length pts - length ls) [] else ls),
            warnings = spec_warnings pts @ (if u \<and> \<not> newmpb d then [fallback_warning] else []) \<rparr>"
  by (auto simp: KSpace_init_def build_three_list_eq Let_def spec_stored_labels_def)

lemma warnings_differ: "fallback_warning \<noteq> truncation_warning"
  by (simp add: fallback_warning_def truncation_warning_def)

lemma count_list_replicate_same: "count_list (replicate n x) x = n"
  by (induction n) simp_all

lemma spec_stored_labels_length:
  "spec_stored_labels n ls = [] \<or> length (spec_stored_labels n ls) = n"
  by (cases "ls = []"; cases "length ls < n") (simp_all add: spec_stored_labels_def)

lemma spec_stored_labels_empty:
  "spec_stored_labels n ls = [] \<longleftrightarrow> ls = [] \<or> n = 0"
  by (cases "ls = []"; cases "length ls < n") (auto simp: spec_stored_labels_def)

lemma init_well_formed:
  assumes "KSpace_init d pts k u ls kw = Inr r"
  shows "list_all is_three_tuple (points_list (self r))"
    and "point_labels (self r) = [] \<or> length (point_labels (self r)) = length (points_list (self r))"
    and "k_interpolation (self r) = k"
    and "use_uniform_interpolation (self r) = (u \<and> newmpb d)"
    and "extras (self r) = kw"
  using assms spec_stored_labels_length [of "length pts" ls]
  by (auto simp: KSpace_init_eq list_all_iff is_three_tuple_spec_point)

section \<open>Method calls\<close>

lemma lookup_method_eq:
  "lookup_method k name = (if extras k name = None then Inr () else Inl TypeError)"
  by (simp add: lookup_method_def split: option.splits)

lemma points_eq:
  "points k = (if extras k ''points'' = None then Inr (points_list k) else Inl TypeError)"
  by (simp add: points_def lookup_method_eq)

lemma has_labels_eq:
  "has_labels k =
     (if extras k ''has_labels'' \<noteq> None \<or> (point_labels k \<noteq> [] \<and> extras k ''points'' \<noteq> None)
      then Inl TypeError
      else if point_labels k = [] then Inr (PyInt 0)
      else Inr (PyBool (length (points_list k) = length (point_labels k))))"
  by (simp add: has_labels_def lookup_method_eq points_eq Let_def)

lemma labels_eq:
  "labels k =
     (if extras k ''labels'' \<noteq> None \<or> extras k ''has_labels'' \<noteq> None
         \<or> (point_labels k \<noteq> [] \<and> extras k ''points'' \<noteq> None)
      then Inl TypeError
      else if spec_has_labels k then Inr (point_labels k) else Inr [])"
  by (auto simp: labels_def lookup_method_eq has_labels_eq spec_has_labels_def)

lemma count_interpolated_eq:
  "count_interpolated k =
     (if extras k ''count_interpolated'' \<noteq> None \<or> extras k ''points'' \<noteq> None
      then Inl TypeError
      else Inr ((int (length (points_list k)) - 1) * (k_interpolation k + 1) + 1))"
  by (simp add: count_interpolated_def lookup_method_eq points_eq)

lemma snd_call [simp]: "snd (call fs items d m k) = k"
  by (cases m) (simp_all add: call_def)

lemma after_calls_eq [simp]: "after_calls fs items d ms k = k"
  by (induction ms arbitrary: k) simp_all

section \<open>Rendering a well-formed path\<close>

lemma is_three_tupleE:
  assumes "is_three_tuple p"
  obtains x y z where "p = PyTuple [x, y, z]"
proof (cases p)
  case (PyTuple xs)
  with assms have "length xs = 3" by simp
  then obtain x y z where "xs = [x, y, z]"
    by (auto simp: numeral_3_eq_3 length_Suc_conv)
  with PyTuple that show ?thesis by blast
qed (use assms in simp_all)

lemma plain_vectors_eq:
  "list_all is_three_tuple ps \<Longrightarrow>
     plain_vectors fs ps = Inr (concat (map (\<lambda>p. spec_line fs p []) ps))"
proof (induction ps)
  case Nil
  show ?case by simp
next
  case (Cons p ps)
  then have "is_three_tuple p" by simp
  then obtain x y z where p: "p = PyTuple [x, y, z]" by (rule is_three_tupleE)
  from Cons show ?case
    by (simp add: p vector3_def spec_line_def)
qed

lemma vector3_commented_eq:
  "vector3_commented fs x y z (comment_of l) = spec_line fs (PyTuple [x, y, z]) l"
  by (simp add: vector3_commented_def spec_line_def comment_of_def)

lemma commented_vectors_eq:
  "list_all is_three_tuple ps \<Longrightarrow> length ls = i + length ps \<Longrightarrow>
     commented_vectors fs (map comment_of ls) i ps =
       Inr (concat (map2 (spec_line fs) ps (drop i ls)))"
proof (induction ps arbitrary: i)
  case Nil
  show ?case by simp
next
  case (Cons p ps)
  then have "is_three_tuple p" by simp
  then obtain x y z where p: "p = PyTuple [x, y, z]" by (rule is_three_tupleE)
  from Cons.prems have i: "i < length ls" by simp
  then have d: "drop i ls = ls ! i # drop (Suc i) ls"
    by (simp add: Cons_nth_drop_Suc)
  from i have c: "list_getitem (map comment_of ls) i = Inr (comment_of (ls ! i))"
    by (simp add: list_getitem_def)
  from Cons.prems have "commented_vectors fs (map comment_of ls) (Suc i) ps =
       Inr (concat (map2 (spec_line fs) ps (drop (Suc i) ls)))"
    by (intro Cons.IH) simp_all
  then show ?case
    by (simp add: p d c vector3_commented_eq)
qed

lemma vectors_eq:
  assumes "extras k ''points'' = None"
    and "list_all is_three_tuple (points_list k)"
    and "point_labels k = [] \<or> length (point_labels k) = length (points_list k)"
  shows "(if point_labels k \<noteq> [] then
          (let comments = map (\<lambda>pl. if pl \<noteq> [] then ''  ;'' @ pl else pl) (point_labels k)
           in py_bind (points k) (commented_vectors fs comments 0))
        else py_bind (points k) (plain_vectors fs)) = Inr (concat (spec_lines fs k))"
proof (cases "point_labels k = []")
  case True
  with assms show ?thesis
    by (simp add: points_eq plain_vectors_eq spec_lines_def spec_has_labels_def)
next
  case False
  with assms have l: "length (point_labels k) = 0 + length (points_list k)" by simp
  have c: "(\<lambda>pl. if pl \<noteq> [] then ''  ;'' @ pl else pl) = comment_of"
    by (simp add: comment_of_def fun_eq_iff)
  from False l have h: "spec_has_labels k"
    by (simp add: spec_has_labels_def)
  from False assms(1) show ?thesis
    using commented_vectors_eq [OF assms(2) l, of fs]
    by (simp add: c points_eq spec_lines_def h)
qed

lemma KSpace_str_eq:
  assumes "extras k ''points'' = None"
    and "list_all is_three_tuple (points_list k)"
    and "point_labels k = [] \<or> length (point_labels k) = length (points_list k)"
  shows "KSpace_str fs d k =
     Inr (if k_interpolation k \<noteq> 0 then
            ''('' @ (if use_uniform_interpolation k then k_uniform_interpolation_function d
                     else k_interpolation_function d)
              @ '' '' @ str_int (k_interpolation k) @ '' (list'' @ newline
              @ concat (spec_lines fs k) @ ''))''
          else ''(list'' @ newline @ concat (spec_lines fs k) @ '')'')"
  unfolding KSpace_str_def vectors_eq [OF assms]
  by (simp add: Let_def)

lemma KSpace_str_shadowed:
  "extras k ''points'' \<noteq> None \<Longrightarrow> KSpace_str fs d k = Inl TypeError"
  by (auto simp: KSpace_str_def points_eq Let_def)

section \<open>binary64 rounding and the samples of \<open>linspace\<close>\<close>

text \<open>Values of \<open>linspace\<close> at small numbers of samples, by evaluation.\<close>

lemma linspace_1: "linspace (- 1 / 2) (1 / 2) 1 = Inr [- 1 / 2]"
  by code_simp

lemma linspace_2: "linspace (- 1 / 2) (1 / 2) 2 = Inr [- 1 / 2, 1 / 2]"
  by code_simp

lemma linspace_3: "linspace (- 1 / 2) (1 / 2) 3 = Inr [- 1 / 2, 0, 1 / 2]"
  by code_simp

lemma linspace_4:
  "linspace (- 1 / 2) (1 / 2) 4 =
     Inr [- 1 / 2, - 3002399751580331 / 2 ^ 54, 1501199875790165 / 2 ^ 53, 1 / 2]"
  by code_simp

lemma linspace_neg: "linspace (- 1 / 2) (1 / 2) (- 1) = Inl ValueError"
  by code_simp

lemma round_float64_0 [simp]: "round_float64 0 = 0"
  by (simp add: round_float64_def)

lemma round_float64_minus_half: "round_float64 (- 1 / 2) = - 1 / 2"
  by code_simp

lemma round_float64_1: "round_float64 1 = 1"
  by code_simp

lemma linspace_length:
  "0 \<le> n \<Longrightarrow> \<exists>xs. linspace a b n = Inr xs \<and> length xs = nat n"
  by (simp add: linspace_def Let_def)

lemma linspace_hd:
  assumes "2 \<le> n" and "linspace (- 1 / 2) (1 / 2) n = Inr xs"
  shows "hd xs = - 1 / 2"
proof -
  from assms(1) have n: "[0..<nat n] = 0 # [1..<nat n]" "nat n - 1 \<noteq> 0"
    by (auto simp: upt_conv_Cons)
  have "linspace_sample (- 1 / 2) (1 / 2) n 0 = - 1 / 2"
    using assms(1) round_float64_minus_half by (simp add: linspace_sample_def Let_def)
  with assms n show ?thesis
    by (cases "nat n - 1") (auto simp: linspace_def Let_def)
qed

lemma linspace_last:
  assumes "2 \<le> n" and "linspace a b n = Inr xs"
  shows "last xs = b"
proof -
  from assms have "xs = (map (linspace_sample a b n) [0..<nat n])[nat n - 1 := b]"
    by (auto simp: linspace_def Let_def)
  moreover from assms(1) have "nat n - 1 < length (map (linspace_sample a b n) [0..<nat n])"
    by simp
  ultimately show ?thesis
    by (simp add: last_list_update last_conv_nth)
qed

text \<open>Rounding changes a number by at most the fraction \<open>2 ^ -53\<close> of it.\<close>

lemma round_half_even_error: "\<bar>of_int (round_half_even r) - r\<bar> \<le> 1 / 2"
proof -
  define f where "f = \<lfloor>r\<rfloor>"
  define d where "d = r - of_int f"
  have d: "0 \<le> d" "d < 1"
    unfolding d_def f_def by linarith+
  have r: "r = of_int f + d"
    by (simp add: d_def)
  show ?thesis
    unfolding round_half_even_def Let_def f_def [symmetric] d_def [symmetric]
    using d by (auto simp: r)
qed

lemma float_exponent_lower:
  assumes "q \<noteq> 0"
  shows "2 powi (float_exponent q) \<le> \<bar>q\<bar>"
proof -
  obtain a b where ab: "quotient_of \<bar>q\<bar> = (a, b)"
    by (cases "quotient_of \<bar>q\<bar>")
  then have b: "0 < b" and q: "\<bar>q\<bar> = of_int a / of_int b"
    using quotient_of_denom_pos [OF ab] quotient_of_div [OF ab] by simp_all
  from assms have "0 < \<bar>q\<bar>" by simp
  with q b have a: "0 < a"
    by (simp add: zero_less_divide_iff)
  define la where "la = bitlen a"
  define lb where "lb = bitlen b"
  from a b have la: "1 \<le> la" and lb: "1 \<le> lb"
    unfolding la_def lb_def by (auto simp: bitlen_alt_def)
  from bitlen_bounds [OF a] have "2 ^ nat (la - 1) \<le> a"
    by (simp add: la_def)
  then have A: "(2::rat) ^ nat (la - 1) \<le> of_int a"
    by (metis of_int_le_iff of_int_numeral of_int_power)
  from bitlen_bounds [OF b] have "b < 2 ^ nat lb"
    by (simp add: lb_def)
  then have B: "of_int b \<le> (2::rat) ^ nat lb"
    by (metis less_imp_le of_int_le_iff of_int_numeral of_int_power)
  have "(2::rat) powi (la - lb - 1) = 2 powi (la - 1) / 2 powi lb"
    by (simp add: power_int_diff)
  also have "\<dots> = 2 ^ nat (la - 1) / 2 ^ nat lb"
    using la lb by (simp add: power_int_def)
  also have "\<dots> \<le> of_int a / of_int b"
    using A B a b by (intro frac_le) simp_all
  finally have low: "(2::rat) powi (la - lb - 1) \<le> \<bar>q\<bar>"
    by (simp add: q)
  show ?thesis
    using low by (simp add: float_exponent_def ab Let_def la_def lb_def)
qed

lemma round_float64_error: "\<bar>round_float64 q - q\<bar> \<le> \<bar>q\<bar> / 2 ^ 53"
proof (cases "q = 0")
  case True
  then show ?thesis by simp
next
  case False
  define e where "e = float_exponent q"
  define ulp :: rat where "ulp = 2 powi (e - 52)"
  have ulp: "0 < ulp"
    by (simp add: ulp_def)
  have "round_float64 q - q = (of_int (round_half_even (q / ulp)) - q / ulp) * ulp"
    using False ulp by (simp add: round_float64_def Let_def e_def ulp_def algebra_simps)
  then have "\<bar>round_float64 q - q\<bar> = \<bar>of_int (round_half_even (q / ulp)) - q / ulp\<bar> * ulp"
    using ulp by (simp add: abs_mult)
  also have "\<dots> \<le> 1 / 2 * ulp"
    using round_half_even_error [of "q / ulp"] ulp by (intro mult_right_mono) simp_all
  also have "1 / 2 * ulp = 2 powi e / 2 ^ 53"
    by (simp add: ulp_def power_int_diff)
  also have "\<dots> \<le> \<bar>q\<bar> / 2 ^ 53"
    using float_exponent_lower [OF False] by (simp add: e_def divide_right_mono)
  finally show ?thesis .
qed

lemma round_float64_bounds:
  assumes "0 \<le> q"
  shows "q * (1 - 1 / 2 ^ 53) \<le> round_float64 q" and "round_float64 q \<le> q * (1 + 1 / 2 ^ 53)"
proof -
  from assms round_float64_error [of q] have e: "\<bar>round_float64 q - q\<bar> \<le> q / 2 ^ 53"
    by simp
  from abs_le_D1 [OF e] abs_le_D2 [OF e]
  show "q * (1 - 1 / 2 ^ 53) \<le> round_float64 q"
    and "round_float64 q \<le> q * (1 + 1 / 2 ^ 53)"
    by (simp_all add: field_simps)
qed

lemma linspace_sample_error:
  assumes n: "2 \<le> n" and i: "int i \<le> n - 1"
  shows "\<bar>linspace_sample (- 1 / 2) (1 / 2) n i - (- 1 / 2 + of_nat i / of_int (n - 1))\<bar>
           \<le> 1 / 2 ^ 50"
proof -
  define u :: rat where "u = 1 / 2 ^ 53"
  define D :: rat where "D = of_int (n - 1)"
  define t :: rat where "t = of_nat i / D"
  define fi where "fi = round_float64 (of_nat i)"
  define fd where "fd = round_float64 D"
  define step where "step = round_float64 (1 / fd)"
  define p where "p = round_float64 (fi * step)"
  define y where "y = round_float64 (p + - 1 / 2)"
  have u: "0 < u" "u < 1" by (simp_all add: u_def)
  from n have D: "1 \<le> D" by (simp add: D_def)
  from i have iD: "of_nat i \<le> D"
    unfolding D_def by (metis of_int_le_iff of_int_of_nat_eq)
  have t: "0 \<le> t" "t \<le> 1"
    using D iD by (simp_all add: t_def)
  have fi: "of_nat i * (1 - u) \<le> fi" "fi \<le> of_nat i * (1 + u)"
    unfolding fi_def u_def by (rule round_float64_bounds; simp)+
  have fd: "D * (1 - u) \<le> fd" "fd \<le> D * (1 + u)"
    unfolding fd_def u_def using D by (intro round_float64_bounds; simp)+
  have fd_pos: "0 < fd"
  proof -
    have "0 < D * (1 - u)" using D u by simp
    with fd(1) show ?thesis by simp
  qed
  have fi_nn: "0 \<le> fi"
  proof -
    have "0 \<le> of_nat i * (1 - u)" using u by simp
    with fi(1) show ?thesis by simp
  qed
  have r: "1 / (D * (1 + u)) \<le> 1 / fd" "1 / fd \<le> 1 / (D * (1 - u))"
    using fd fd_pos D u by (simp_all add: frac_le)
  have st: "1 / fd * (1 - u) \<le> step" "step \<le> 1 / fd * (1 + u)"
    unfolding step_def u_def using fd_pos by (intro round_float64_bounds; simp)+
  have step_nn: "0 \<le> step"
  proof -
    have "0 \<le> 1 / fd * (1 - u)" using fd_pos u by simp
    with st(1) show ?thesis by simp
  qed
  have pb: "fi * step * (1 - u) \<le> p" "p \<le> fi * step * (1 + u)"
    unfolding p_def u_def using fi_nn step_nn by (intro round_float64_bounds; simp)+
  have up: "p \<le> t * ((1 + u) ^ 3 / (1 - u))"
  proof -
    have "step \<le> 1 / (D * (1 - u)) * (1 + u)"
      using st(2) r(2) u by (meson less_eq_real_def mult_right_mono order_trans add_nonneg_nonneg zero_le_one less_imp_le)
    then have "fi * step \<le> of_nat i * (1 + u) * (1 / (D * (1 - u)) * (1 + u))"
      using fi(2) fi_nn step_nn u by (intro mult_mono) simp_all
    then have "fi * step * (1 + u) \<le> of_nat i * (1 + u) * (1 / (D * (1 - u)) * (1 + u)) * (1 + u)"
      using u by (intro mult_right_mono) simp_all
    also have "\<dots> = t * ((1 + u) ^ 3 / (1 - u))"
      by (simp add: t_def power3_eq_cube)
    finally show ?thesis using pb(2) by simp
  qed
  have lo: "t * ((1 - u) ^ 3 / (1 + u)) \<le> p"
  proof -
    have "1 / (D * (1 + u)) * (1 - u) \<le> step"
      using st(1) r(1) u by (meson mult_right_mono order_trans diff_ge_0_iff_ge less_imp_le)
    moreover have "0 \<le> 1 / (D * (1 + u)) * (1 - u)"
      using D u by simp
    ultimately have "of_nat i * (1 - u) * (1 / (D * (1 + u)) * (1 - u)) \<le> fi * step"
      using fi(1) fi_nn u by (intro mult_mono) simp_all
    then have "of_nat i * (1 - u) * (1 / (D * (1 + u)) * (1 - u)) * (1 - u) \<le> fi * step * (1 - u)"
      using u by (intro mult_right_mono) simp_all
    moreover have "of_nat i * (1 - u) * (1 / (D * (1 + u)) * (1 - u)) * (1 - u)
        = t * ((1 - u) ^ 3 / (1 + u))"
      by (simp add: t_def power3_eq_cube)
    ultimately show ?thesis using pb(1) by simp
  qed
  have K1: "(1 + u) ^ 3 / (1 - u) \<le> 1 + 5 * u"
    by (simp add: u_def power3_eq_cube field_simps)
  have K2: "1 - 5 * u \<le> (1 - u) ^ 3 / (1 + u)"
    by (simp add: u_def power3_eq_cube field_simps)
  have "t * ((1 + u) ^ 3 / (1 - u)) \<le> t * (1 + 5 * u)"
    using K1 t by (intro mult_left_mono) simp_all
  also have "\<dots> \<le> t + 5 * u"
    using t u by (simp add: algebra_simps)
  finally have p_up: "p \<le> t + 5 * u" using up by simp
  have "t - 5 * u \<le> t * (1 - 5 * u)"
    using t u by (simp add: algebra_simps)
  also have "\<dots> \<le> t * ((1 - u) ^ 3 / (1 + u))"
    using K2 t by (intro mult_left_mono) simp_all
  finally have p_lo: "t - 5 * u \<le> p" using lo by simp
  have "\<bar>y - (p + - 1 / 2)\<bar> \<le> \<bar>p + - 1 / 2\<bar> / 2 ^ 53"
    unfolding y_def by (rule round_float64_error)
  moreover have "\<bar>p + - 1 / 2\<bar> \<le> 1"
    using p_up p_lo t by (simp add: u_def abs_le_iff)
  ultimately have "\<bar>y - (p + - 1 / 2)\<bar> \<le> u"
    by (simp add: u_def)
  with p_up p_lo have "\<bar>y - (- 1 / 2 + t)\<bar> \<le> 6 * u"
    by (simp add: abs_le_iff)
  then have bound: "\<bar>y - (- 1 / 2 + t)\<bar> \<le> 1 / 2 ^ 50"
    by (simp add: u_def)
  have "linspace_sample (- 1 / 2) (1 / 2) n i = y"
    using n round_float64_1
    by (simp add: linspace_sample_def Let_def y_def p_def step_def fd_def fi_def D_def)
  with bound show ?thesis
    by (simp add: t_def D_def)
qed

lemma linspace_samples:
  assumes "0 \<le> n"
  shows "\<exists>xs. linspace (- 1 / 2) (1 / 2) n = Inr xs \<and> spec_samples n xs"
proof -
  from linspace_length [OF assms] obtain xs
    where xs: "linspace (- 1 / 2) (1 / 2) n = Inr xs" and len: "length xs = nat n"
    by blast
  have one: "xs = [- 1 / 2]" if "n = 1"
    using that xs linspace_1 by simp
  have spaced: "\<bar>xs ! i - (- 1 / 2 + of_nat i / of_int (n - 1))\<bar> \<le> 1 / 2 ^ 50"
    if n: "2 \<le> n" and i: "i < nat n" for i
  proof (cases "i = nat n - 1")
    case True
    from n xs have "xs = (map (linspace_sample (- 1 / 2) (1 / 2) n) [0..<nat n])[nat n - 1 := 1 / 2]"
      by (auto simp: linspace_def Let_def)
    with True i have "xs ! i = 1 / 2"
      by simp
    moreover from True n have "rat_of_nat i = of_int (n - 1)"
      by (simp add: of_nat_diff)
    ultimately show ?thesis
      using n by simp
  next
    case False
    from n xs have "xs = (map (linspace_sample (- 1 / 2) (1 / 2) n) [0..<nat n])[nat n - 1 := 1 / 2]"
      by (auto simp: linspace_def Let_def)
    with False i have "xs ! i = linspace_sample (- 1 / 2) (1 / 2) n i"
      by simp
    moreover from i have "int i \<le> n - 1"
      by linarith
    ultimately show ?thesis
      using linspace_sample_error [OF n] by simp
  qed
  from xs len one spaced linspace_hd [OF _ xs] linspace_last [OF _ xs]
  show ?thesis
    by (auto simp: spec_samples_def list_all_iff)
qed

section \<open>The grid\<close>

lemma map_result_eq:
  "(\<And>x. x \<in> set xs \<Longrightarrow> f x = Inr (g x)) \<Longrightarrow> map_result f xs = Inr (map g xs)"
  by (induction xs) simp_all

lemma grid_points_eq:
  assumes "linspace (- 1 / 2) (1 / 2) x_steps = Inr xs"
    and "linspace (- 1 / 2) (1 / 2) y_steps = Inr ys"
  shows "grid_points x_steps y_steps = Inr (spec_grid xs ys)"
proof -
  have "map_result
          (\<lambda>y. py_bind (linspace (- 1 / 2) (1 / 2) x_steps) (\<lambda>xs.
                 Inr (map (\<lambda>x. PyTuple [PyFloat x, PyFloat y, PyFloat 0]) xs))) ys
        = Inr (map (\<lambda>y. map (\<lambda>x. PyTuple [PyFloat x, PyFloat y, PyFloat 0]) xs) ys)"
    by (rule map_result_eq) (simp only: assms(1) py_bind_Inr)
  then show ?thesis
    unfolding grid_points_def assms(2) py_bind_Inr
    by (simp add: spec_grid_def)
qed

lemma grid_points_negative_y:
  "y_steps < 0 \<Longrightarrow> grid_points x_steps y_steps = Inl ValueError"
  by (simp add: grid_points_def linspace_def)

lemma grid_points_no_y: "grid_points x_steps 0 = Inr []"
  by (simp add: grid_points_def linspace_def)

lemma grid_points_negative_x:
  assumes "0 < y_steps" and "x_steps < 0"
  shows "grid_points x_steps y_steps = Inl ValueError"
proof -
  from assms(1) obtain ys where ys: "linspace (- 1 / 2) (1 / 2) y_steps = Inr ys"
    and "length ys = nat y_steps"
    using linspace_length [of y_steps] by auto
  with assms(1) obtain y ys' where "ys = y # ys'"
    by (cases ys) auto
  with assms(2) show ?thesis
    unfolding grid_points_def ys py_bind_Inr
    by (simp add: linspace_def)
qed

lemma length_spec_grid: "length (spec_grid xs ys) = length xs * length ys"
  by (simp add: spec_grid_def length_concat comp_def sum_list_triv)

lemma spec_point_spec_grid: "map spec_point (spec_grid xs ys) = spec_grid xs ys"
  by (simp add: spec_grid_def map_concat comp_def)

section \<open>The claims\<close>

text \<open>
  C1: for every list of raw points the constructor returns, and the stored
  points are the items normalized by the rules of the specification
  (\<open>spec_point\<close>): a string or a value that is no sequence becomes
  \<open>(item, 0, 0)\<close>, as does an empty sequence; a sequence of one element becomes
  \<open>(item[0], 0, 0)\<close>, of two elements \<open>(item[0], item[1], 0)\<close>, of three elements
  the tuple of them, of more than three the tuple of the first three.  Every
  stored point is a tuple of exactly three components, and the truncation
  warning is emitted once for every item of more than three elements.
  \<open>points()\<close> returns the stored list unless a keyword argument shadows it.
\<close>

theorem KSpace_init_normalizes:
  "\<exists>r. KSpace_init d pts k u ls kw = Inr r
      \<and> points_list (self r) = map spec_point pts
      \<and> list_all is_three_tuple (points_list (self r))
      \<and> count_list (warnings r) truncation_warning = length (filter spec_truncated pts)
      \<and> (kw ''points'' = None \<longrightarrow> points (self r) = Inr (map spec_point pts))"
  by (simp add: KSpace_init_eq points_eq list_all_iff is_three_tuple_spec_point
      spec_warnings_def warnings_differ count_list_replicate_same)

theorem KSpace_init_normalizes_witness:
  "\<exists>r. KSpace_init sample_defaults
         [PyFloat (1 / 2), PyTuple [PyFloat (1 / 2), PyInt 1],
          PyList [PyInt 1, PyInt 2, PyInt 3, PyInt 4], PyStr ''(/ 3)'']
         0 False [] Map.empty = Inr r
      \<and> points (self r) =
           Inr [PyTuple [PyFloat (1 / 2), PyInt 0, PyInt 0],
                PyTuple [PyFloat (1 / 2), PyInt 1, PyInt 0],
                PyTuple [PyInt 1, PyInt 2, PyInt 3],
                PyTuple [PyStr ''(/ 3)'', PyInt 0, PyInt 0]]
      \<and> count_list (warnings r) truncation_warning = 1"
  using KSpace_init_normalizes [of sample_defaults
         "[PyFloat (1 / 2), PyTuple [PyFloat (1 / 2), PyInt 1],
          PyList [PyInt 1, PyInt 2, PyInt 3, PyInt 4], PyStr ''(/ 3)'']"
         0 False "[]" Map.empty]
  by auto

text \<open>
  C2, as amended: a path constructed with interpolation count zero and without a
  keyword argument named \<open>points\<close> renders as the bare list: \<open>(list\<close>, a line
  break, the lines of the points in order, and \<open>)\<close>, where the line of a point
  is four blanks, \<open>(vector3 X Y Z)\<close>, the comment \<open>;LABEL\<close> after two blanks if the
  path has labels and the label of the point is not empty, and a line break.
  In particular such a path of the two points \<open>(A, B, C)\<close> and \<open>(D, E, F)\<close>
  without labels renders as the two plain lines between \<open>(list\<close> and \<open>)\<close>.
\<close>

theorem KSpace_str_unwrapped:
  assumes "kw ''points'' = None"
  shows "(\<exists>r. KSpace_init d pts 0 u ls kw = Inr r
       \<and> KSpace_str fs d (self r) =
           Inr (''(list'' @ newline @ concat (spec_lines fs (self r)) @ '')''))
   \<and> (\<exists>r. KSpace_init d [PyTuple [A, B, C], PyTuple [D, E, F]] 0 u [] kw = Inr r
       \<and> KSpace_str fs d (self r) =
           Inr (''(list'' @ newline
                @ ''    (vector3 '' @ py_str fs A @ '' '' @ py_str fs B @ '' '' @ py_str fs C
                @ '')'' @ newline
                @ ''    (vector3 '' @ py_str fs D @ '' '' @ py_str fs E @ '' '' @ py_str fs F
                @ '')'' @ newline
                @ '')''))"
proof (intro conjI)
  obtain r where r: "KSpace_init d pts 0 u ls kw = Inr r"
    by (simp add: KSpace_init_eq)
  from init_well_formed [OF r] assms
  have "KSpace_str fs d (self r) =
           Inr (''(list'' @ newline @ concat (spec_lines fs (self r)) @ '')'')"
    by (simp add: KSpace_str_eq)
  with r show "\<exists>r. KSpace_init d pts 0 u ls kw = Inr r
       \<and> KSpace_str fs d (self r) =
           Inr (''(list'' @ newline @ concat (spec_lines fs (self r)) @ '')'')"
    by blast
next
  from assms
  show "\<exists>r. KSpace_init d [PyTuple [A, B, C], PyTuple [D, E, F]] 0 u [] kw = Inr r
       \<and> KSpace_str fs d (self r) =
           Inr (''(list'' @ newline
                @ ''    (vector3 '' @ py_str fs A @ '' '' @ py_str fs B @ '' '' @ py_str fs C
                @ '')'' @ newline
                @ ''    (vector3 '' @ py_str fs D @ '' '' @ py_str fs E @ '' '' @ py_str fs F
                @ '')'' @ newline
                @ '')'')"
    by (simp add: KSpace_init_eq KSpace_str_def points_eq spec_stored_labels_def vector3_def)
qed

theorem KSpace_str_unwrapped_witness:
  "\<exists>r. KSpace_init sample_defaults [PyInt 0, PyTuple [PyFloat (1 / 2), PyInt 1]] 0 False
         [''Gamma''] Map.empty = Inr r
      \<and> point_labels (self r) = [''Gamma'', []]
      \<and> KSpace_str sample_py_str sample_defaults (self r) =
          Inr (''(list'' @ newline
               @ ''    (vector3 0 0 0)  ;Gamma'' @ newline
               @ ''    (vector3 0.5 1 0)'' @ newline
               @ '')'')"
  using KSpace_str_unwrapped [where d = sample_defaults
      and pts = "[PyInt 0, PyTuple [PyFloat (1 / 2), PyInt 1]]" and u = False
      and ls = "[''Gamma'']" and kw = Map.empty and fs = sample_py_str]
  by (auto simp: KSpace_init_eq spec_stored_labels_def spec_lines_def spec_has_labels_def
      spec_line_def sample_py_str_def str_int_def str_nat.simps digit_char_def)

text \<open>
  The claim C2 as it was stated fails for a path constructed with a keyword
  argument named \<open>points\<close>: the attribute shadows the method that \<open>__str__\<close>
  calls, and rendering raises TypeError.
\<close>

theorem KSpace_str_unwrapped_shadowed:
  "KSpace_init sample_defaults [PyInt 0, PyInt 1] 0 False [] [''points'' \<mapsto> PyInt 5] =
     Inr \<lparr> self = two_point_path 0 [] [''points'' \<mapsto> PyInt 5],
            point_labels_arg = [], warnings = [] \<rparr>
   \<and> KSpace_str sample_py_str sample_defaults (two_point_path 0 [] [''points'' \<mapsto> PyInt 5])
       = Inl TypeError"
  by (simp add: KSpace_init_eq two_point_path_def spec_stored_labels_def spec_warnings_def
      sample_defaults_def KSpace_str_shadowed)

text \<open>
  C3, as amended: a path constructed with an interpolation count other than zero
  and without a keyword argument named \<open>points\<close> renders as \<open>(\<close>, the function
  name, a blank, the count, \<open> (list\<close>, a line break, the lines of the points and
  \<open>))\<close>.  The function name is the configured uniform interpolation function
  when the stored flag \<open>use_uniform_interpolation\<close> is true, and the configured
  simple interpolation function when it is false.
\<close>

theorem KSpace_str_interpolated:
  assumes "k \<noteq> 0" and "kw ''points'' = None"
  shows "\<exists>r. KSpace_init d pts k u ls kw = Inr r
      \<and> KSpace_str fs d (self r) =
          Inr (''('' @ (if use_uniform_interpolation (self r)
                        then k_uniform_interpolation_function d
                        else k_interpolation_function d)
               @ '' '' @ str_int k @ '' (list'' @ newline
               @ concat (spec_lines fs (self r)) @ ''))'')"
proof -
  obtain r where r: "KSpace_init d pts k u ls kw = Inr r"
    by (simp add: KSpace_init_eq)
  from init_well_formed [OF r] assms
  have "KSpace_str fs d (self r) =
          Inr (''('' @ (if use_uniform_interpolation (self r)
                        then k_uniform_interpolation_function d
                        else k_interpolation_function d)
               @ '' '' @ str_int k @ '' (list'' @ newline
               @ concat (spec_lines fs (self r)) @ ''))'')"
    by (simp add: KSpace_str_eq)
  with r show ?thesis by blast
qed

theorem KSpace_str_interpolated_witness:
  "(5::int) \<noteq> 0 \<and>
   (\<exists>r. KSpace_init sample_defaults [PyTuple [PyInt 0, PyInt 0, PyInt 0],
          PyTuple [PyInt 1, PyInt 2, PyInt 3]] 5 False [] Map.empty = Inr r
      \<and> KSpace_str sample_py_str sample_defaults (self r) =
          Inr (''(interpolate 5 (list'' @ newline
               @ ''    (vector3 0 0 0)'' @ newline
               @ ''    (vector3 1 2 3)'' @ newline
               @ ''))'')) \<and>
   (\<exists>r. KSpaceTriangular_init sample_defaults 5 True = Inr r
      \<and> KSpace_str sample_py_str sample_defaults (self r) =
          Inr (''(kinterpolate-uniform 5 (list'' @ newline
               @ ''    (vector3 0 0 0)  ;Gamma'' @ newline
               @ ''    (vector3 0 0.5 0)  ;M'' @ newline
               @ ''    (vector3 (/ -3) (/ 3) 0)  ;K'' @ newline
               @ ''    (vector3 0 0 0)  ;Gamma'' @ newline
               @ ''))''))"
  using KSpace_str_interpolated [where k = 5 and d = sample_defaults
      and pts = "[PyTuple [PyInt 0, PyInt 0, PyInt 0], PyTuple [PyInt 1, PyInt 2, PyInt 3]]"
      and u = False and ls = "[]" and kw = Map.empty and fs = sample_py_str]
    KSpace_str_interpolated [where k = 5 and d = sample_defaults
      and pts = "[PyTuple [PyInt 0, PyInt 0, PyInt 0], PyTuple [PyInt 0, PyFloat (1 / 2), PyInt 0],
        PyTuple [PyStr ''(/ -3)'', PyStr ''(/ 3)'', PyInt 0],
        PyTuple [PyInt 0, PyInt 0, PyInt 0]]"
      and u = True and ls = "[''Gamma'', ''M'', ''K'', ''Gamma'']" and kw = Map.empty
      and fs = sample_py_str]
  by (auto simp: KSpaceTriangular_init_def KSpace_init_eq spec_stored_labels_def
      spec_lines_def spec_has_labels_def spec_line_def sample_py_str_def
      sample_defaults_def str_int_def str_nat.simps digit_char_def)

text \<open>
  The claim C3 as it was stated fails for a path constructed with a keyword
  argument named \<open>points\<close>: rendering raises TypeError.
\<close>

theorem KSpace_str_interpolated_shadowed:
  "KSpace_init sample_defaults [PyInt 0, PyInt 1] 5 False [] [''points'' \<mapsto> PyInt 5] =
     Inr \<lparr> self = two_point_path 5 [] [''points'' \<mapsto> PyInt 5],
            point_labels_arg = [], warnings = [] \<rparr>
   \<and> KSpace_str sample_py_str sample_defaults (two_point_path 5 [] [''points'' \<mapsto> PyInt 5])
       = Inl TypeError"
  by (simp add: KSpace_init_eq two_point_path_def spec_stored_labels_def spec_warnings_def
      sample_defaults_def KSpace_str_shadowed)

text \<open>
  C4, as amended: for every path with at least one stored point and no extra
  attribute named \<open>count_interpolated\<close> or \<open>points\<close>, \<open>count_interpolated()\<close>
  returns \<open>(len(points) - 1) * (k_interpolation + 1) + 1\<close>; for four points and
  interpolation count 3 it returns 13.
\<close>

theorem count_interpolated_formula:
  assumes "extras k ''count_interpolated'' = None" and "extras k ''points'' = None"
  shows "(points_list k \<noteq> [] \<longrightarrow>
      count_interpolated k =
        Inr ((int (length (points_list k)) - 1) * (k_interpolation k + 1) + 1))
   \<and> (length (points_list k) = 4 \<and> k_interpolation k = 3 \<longrightarrow> count_interpolated k = Inr 13)"
  using assms by (simp add: count_interpolated_eq)

theorem count_interpolated_formula_witness:
  "\<exists>r. KSpaceTriangular_init sample_defaults 3 False = Inr r
      \<and> extras (self r) ''count_interpolated'' = None \<and> extras (self r) ''points'' = None
      \<and> points_list (self r) \<noteq> [] \<and> length (points_list (self r)) = 4
      \<and> k_interpolation (self r) = 3
      \<and> count_interpolated (self r) = Inr ((4 - 1) * (3 + 1) + 1)
      \<and> count_interpolated (self r) = Inr 13"
proof -
  obtain r where r: "KSpaceTriangular_init sample_defaults 3 False = Inr r"
    by (simp add: KSpaceTriangular_init_def KSpace_init_eq)
  then have e: "extras (self r) ''count_interpolated'' = None" "extras (self r) ''points'' = None"
    and p: "points_list (self r) \<noteq> []" and l: "length (points_list (self r)) = 4"
    and k: "k_interpolation (self r) = 3"
    by (auto simp: KSpaceTriangular_init_def KSpace_init_eq)
  from count_interpolated_formula [OF e] p l k
  have "count_interpolated (self r) = Inr 13"
    by simp
  with r e p l k show ?thesis by simp
qed

text \<open>
  The claim C4 as it was stated fails for a path constructed with a keyword
  argument named \<open>points\<close>: \<open>count_interpolated()\<close> raises TypeError.
\<close>

theorem count_interpolated_shadowed:
  "KSpace_init sample_defaults [PyInt 0, PyInt 1] 3 False [] [''points'' \<mapsto> PyInt 5] =
     Inr \<lparr> self = two_point_path 3 [] [''points'' \<mapsto> PyInt 5],
            point_labels_arg = [], warnings = [] \<rparr>
   \<and> points_list (two_point_path 3 [] [''points'' \<mapsto> PyInt 5]) \<noteq> []
   \<and> count_interpolated (two_point_path 3 [] [''points'' \<mapsto> PyInt 5]) = Inl TypeError"
  by (simp add: KSpace_init_eq two_point_path_def spec_stored_labels_def spec_warnings_def
      sample_defaults_def count_interpolated_eq)

text \<open>
  C5: a construction that requests uniform interpolation returns (it never
  raises).  When the capability flag \<open>newmpb\<close> is false, the stored flag
  \<open>use_uniform_interpolation\<close> is false and the fallback warning is emitted; when
  the capability flag is true, the stored flag is true as requested.
\<close>

theorem uniform_fallback:
  "\<exists>r. KSpace_init d pts k True ls kw = Inr r
      \<and> (\<not> newmpb d \<longrightarrow>
            \<not> use_uniform_interpolation (self r) \<and> fallback_warning \<in> set (warnings r))
      \<and> (newmpb d \<longrightarrow> use_uniform_interpolation (self r))"
  by (simp add: KSpace_init_eq)

theorem uniform_fallback_witness:
  "(\<exists>r. KSpace_init old_mpb_defaults [PyInt 0, PyInt 1] 3 True [] Map.empty = Inr r
       \<and> \<not> newmpb old_mpb_defaults
       \<and> \<not> use_uniform_interpolation (self r) \<and> fallback_warning \<in> set (warnings r))
   \<and> (\<exists>r. KSpace_init sample_defaults [PyInt 0, PyInt 1] 3 True [] Map.empty = Inr r
       \<and> newmpb sample_defaults
       \<and> use_uniform_interpolation (self r))"
  using uniform_fallback [of old_mpb_defaults "[PyInt 0, PyInt 1]" 3 "[]" Map.empty]
    uniform_fallback [of sample_defaults "[PyInt 0, PyInt 1]" 3 "[]" Map.empty]
  by (simp add: old_mpb_defaults_def sample_defaults_def)

text \<open>
  C6, as amended: for every path constructed without a keyword argument named
  \<open>has_labels\<close>, \<open>labels\<close> or \<open>points\<close>, \<open>has_labels()\<close> is true exactly when the
  stored label list is not empty and as long as the stored point list, so it is
  false whenever these two lengths differ.  The number of labels that were
  supplied does not decide it: a supplied list that is not empty is padded or
  cut to the number of points, and \<open>has_labels()\<close> is then true whenever there
  is a point.  \<open>labels()\<close> returns the stored labels when \<open>has_labels()\<close> is true
  and the empty list otherwise.  (Lists are values here: a copy and its original
  are the same value.)
\<close>

theorem has_labels_iff:
  assumes "kw ''has_labels'' = None" and "kw ''labels'' = None" and "kw ''points'' = None"
  shows "\<exists>r h. KSpace_init d pts k u ls kw = Inr r \<and> has_labels (self r) = Inr h
      \<and> (truthy h \<longleftrightarrow>
            point_labels (self r) \<noteq> []
            \<and> length (point_labels (self r)) = length (points_list (self r)))
      \<and> (length (point_labels (self r)) \<noteq> length (points_list (self r)) \<longrightarrow> \<not> truthy h)
      \<and> (ls \<noteq> [] \<and> pts \<noteq> [] \<longrightarrow> truthy h)
      \<and> (truthy h \<longrightarrow> labels (self r) = Inr (point_labels (self r)))
      \<and> (\<not> truthy h \<longrightarrow> labels (self r) = Inr [])"
proof -
  obtain r where r: "KSpace_init d pts k u ls kw = Inr r"
    by (simp add: KSpace_init_eq)
  note wf = init_well_formed [OF r]
  define h where
    "h = (if point_labels (self r) = [] then PyInt 0
          else PyBool (length (points_list (self r)) = length (point_labels (self r))))"
  from assms wf(5) have hl: "has_labels (self r) = Inr h"
    by (simp add: has_labels_eq h_def)
  have t: "truthy h \<longleftrightarrow> spec_has_labels (self r)"
    by (auto simp: h_def spec_has_labels_def)
  from assms wf(5) have lb:
    "labels (self r) = (if truthy h then Inr (point_labels (self r)) else Inr [])"
    by (simp add: labels_eq t)
  from r spec_stored_labels_length [of "length pts" ls]
  have "ls \<noteq> [] \<and> pts \<noteq> [] \<longrightarrow> spec_has_labels (self r)"
    by (auto simp: KSpace_init_eq spec_has_labels_def spec_stored_labels_empty)
  with r hl t lb show ?thesis
    by (auto simp: spec_has_labels_def)
qed

theorem has_labels_iff_witness:
  "(\<exists>r. KSpace_init sample_defaults [PyInt 0, PyInt 1] 0 False [] Map.empty = Inr r
       \<and> length (point_labels (self r)) \<noteq> length (points_list (self r))
       \<and> has_labels (self r) = Inr (PyInt 0) \<and> labels (self r) = Inr []) \<and>
   (\<exists>r. KSpace_init sample_defaults [PyInt 0, PyInt 1] 0 False [''Gamma''] Map.empty = Inr r
       \<and> has_labels (self r) = Inr (PyBool True) \<and> labels (self r) = Inr [''Gamma'', []])"
  using has_labels_iff [of Map.empty sample_defaults "[PyInt 0, PyInt 1]" 0 False "[]"]
    has_labels_iff [of Map.empty sample_defaults "[PyInt 0, PyInt 1]" 0 False "[''Gamma'']"]
  by (auto simp: KSpace_init_eq spec_stored_labels_def has_labels_eq labels_eq
      spec_has_labels_def)

text \<open>
  The claim C6 as it was stated fails when the label count is the number of
  labels supplied: one label for two points is padded, and \<open>has_labels()\<close> is
  true.  It also fails for a path constructed with a keyword argument named
  \<open>has_labels\<close>: \<open>labels()\<close> raises TypeError.
\<close>

theorem has_labels_supplied_mismatch:
  "KSpace_init sample_defaults [PyInt 0, PyInt 1] 0 False [''Gamma''] Map.empty =
     Inr \<lparr> self = two_point_path 0 [''Gamma'', []] Map.empty,
            point_labels_arg = [''Gamma'', []], warnings = [] \<rparr>
   \<and> has_labels (two_point_path 0 [''Gamma'', []] Map.empty) = Inr (PyBool True)
   \<and> KSpace_init sample_defaults [PyInt 0, PyInt 1] 0 False [''Gamma'']
        [''has_labels'' \<mapsto> PyInt 1] =
     Inr \<lparr> self = two_point_path 0 [''Gamma'', []] [''has_labels'' \<mapsto> PyInt 1],
            point_labels_arg = [''Gamma'', []], warnings = [] \<rparr>
   \<and> labels (two_point_path 0 [''Gamma'', []] [''has_labels'' \<mapsto> PyInt 1]) = Inl TypeError"
  by (simp add: KSpace_init_eq two_point_path_def spec_stored_labels_def spec_warnings_def
      sample_defaults_def has_labels_eq labels_eq)

text \<open>
  C7: for every interpolation count and uniform flag, the triangular preset
  returns a path whose \<open>points()\<close> are \<open>(0, 0, 0)\<close>, \<open>(0, 0.5, 0)\<close>,
  \<open>('(/ -3)', '(/ 3)', 0)\<close>, \<open>(0, 0, 0)\<close> in this order, with the two strings
  unchanged, and whose \<open>labels()\<close> are Gamma, M, K, Gamma.
\<close>

theorem triangular_points_labels:
  "\<exists>r. KSpaceTriangular_init d k u = Inr r
      \<and> points (self r) =
           Inr [PyTuple [PyInt 0, PyInt 0, PyInt 0],
                PyTuple [PyInt 0, PyFloat (1 / 2), PyInt 0],
                PyTuple [PyStr ''(/ -3)'', PyStr ''(/ 3)'', PyInt 0],
                PyTuple [PyInt 0, PyInt 0, PyInt 0]]
      \<and> labels (self r) = Inr [''Gamma'', ''M'', ''K'', ''Gamma'']"
  by (simp add: KSpaceTriangular_init_def KSpace_init_eq points_eq labels_eq spec_has_labels_def
      spec_stored_labels_def)

theorem triangular_points_labels_witness:
  "\<exists>r. KSpaceTriangular_init sample_defaults 3 False = Inr r
      \<and> map_sum id length (points (self r)) = Inr 4
      \<and> labels (self r) = Inr [''Gamma'', ''M'', ''K'', ''Gamma'']"
  using triangular_points_labels [of sample_defaults 3 False]
  by auto

text \<open>
  C8, as amended: for step counts that are not negative, the rectangular grid
  preset returns a path of exactly \<open>x_steps * y_steps\<close> points: for each \<open>y\<close>
  sample in order, all \<open>x\<close> samples in order, each point with third component
  \<open>0.0\<close>.  The samples along an axis with \<open>n\<close> steps are those of
  \<open>linspace(-0.5, 0.5, n)\<close>: for \<open>n\<close> at least 2 the first is -0.5, the last is
  0.5, and sample \<open>i\<close> is within \<open>2 ^ -50\<close> of \<open>-0.5 + i / (n - 1)\<close> (evenly spaced
  up to the rounding of binary64); a single sample is -0.5.  The interpolation
  count of the path is 0 and \<open>x_steps\<close>, \<open>y_steps\<close> are stored as extra
  attributes.  A negative \<open>y_steps\<close> raises ValueError, and so does a negative
  \<open>x_steps\<close> when \<open>y_steps\<close> is positive; with \<open>y_steps = 0\<close> the path is empty
  whatever \<open>x_steps\<close> is.
\<close>

theorem rectangular_grid_points:
  "(0 \<le> x_steps \<and> 0 \<le> y_steps \<longrightarrow>
      (\<exists>r xs ys. KSpaceRectangularGrid_init d x_steps y_steps = Inr r
         \<and> linspace (- 1 / 2) (1 / 2) x_steps = Inr xs \<and> spec_samples x_steps xs
         \<and> linspace (- 1 / 2) (1 / 2) y_steps = Inr ys \<and> spec_samples y_steps ys
         \<and> points (self r) = Inr (spec_grid xs ys)
         \<and> length (spec_grid xs ys) = nat (x_steps * y_steps)
         \<and> k_interpolation (self r) = 0
         \<and> extras (self r) ''x_steps'' = Some (PyInt x_steps)
         \<and> extras (self r) ''y_steps'' = Some (PyInt y_steps)))
   \<and> (y_steps < 0 \<longrightarrow> KSpaceRectangularGrid_init d x_steps y_steps = Inl ValueError)
   \<and> (0 < y_steps \<and> x_steps < 0 \<longrightarrow>
        KSpaceRectangularGrid_init d x_steps y_steps = Inl ValueError)
   \<and> (y_steps = 0 \<longrightarrow>
        (\<exists>r. KSpaceRectangularGrid_init d x_steps y_steps = Inr r \<and> points (self r) = Inr []))"
proof (intro conjI impI)
  assume st: "0 \<le> x_steps \<and> 0 \<le> y_steps"
  from st obtain xs where xs: "linspace (- 1 / 2) (1 / 2) x_steps = Inr xs"
    and sx: "spec_samples x_steps xs"
    using linspace_samples [of x_steps] by blast
  from st obtain ys where ys: "linspace (- 1 / 2) (1 / 2) y_steps = Inr ys"
    and sy: "spec_samples y_steps ys"
    using linspace_samples [of y_steps] by blast
  from sx sy st have n: "length (spec_grid xs ys) = nat (x_steps * y_steps)"
    by (simp add: length_spec_grid spec_samples_def nat_mult_distrib)
  obtain r where r: "KSpaceRectangularGrid_init d x_steps y_steps = Inr r"
    by (simp add: KSpaceRectangularGrid_init_def grid_points_eq [OF xs ys] KSpace_init_eq)
  then have "points (self r) = Inr (spec_grid xs ys)" and "k_interpolation (self r) = 0"
    and "extras (self r) ''x_steps'' = Some (PyInt x_steps)"
    and "extras (self r) ''y_steps'' = Some (PyInt y_steps)"
    by (auto simp: KSpaceRectangularGrid_init_def grid_points_eq [OF xs ys] KSpace_init_eq
        points_eq spec_point_spec_grid)
  with r xs sx ys sy n
  show "\<exists>r xs ys. KSpaceRectangularGrid_init d x_steps y_steps = Inr r
         \<and> linspace (- 1 / 2) (1 / 2) x_steps = Inr xs \<and> spec_samples x_steps xs
         \<and> linspace (- 1 / 2) (1 / 2) y_steps = Inr ys \<and> spec_samples y_steps ys
         \<and> points (self r) = Inr (spec_grid xs ys)
         \<and> length (spec_grid xs ys) = nat (x_steps * y_steps)
         \<and> k_interpolation (self r) = 0
         \<and> extras (self r) ''x_steps'' = Some (PyInt x_steps)
         \<and> extras (self r) ''y_steps'' = Some (PyInt y_steps)"
    by blast
next
  assume "y_steps < 0"
  then show "KSpaceRectangularGrid_init d x_steps y_steps = Inl ValueError"
    by (simp add: KSpaceRectangularGrid_init_def grid_points_negative_y)
next
  assume "0 < y_steps \<and> x_steps < 0"
  then show "KSpaceRectangularGrid_init d x_steps y_steps = Inl ValueError"
    by (simp add: KSpaceRectangularGrid_init_def grid_points_negative_x)
next
  assume "y_steps = 0"
  then show "\<exists>r. KSpaceRectangularGrid_init d x_steps y_steps = Inr r \<and> points (self r) = Inr []"
    by (simp add: KSpaceRectangularGrid_init_def grid_points_no_y KSpace_init_eq points_eq)
qed

text \<open>
  The example of the specification: three \<open>x\<close> steps and two \<open>y\<close> steps give six
  points; \<open>x\<close> runs through -0.5, 0, 0.5 in each row, \<open>y\<close> is -0.5 in the first
  row and 0.5 in the second.  And the three other cases.
\<close>

theorem rectangular_grid_points_witness:
  "(0::int) \<le> 3 \<and> (0::int) \<le> 2 \<and>
   (\<exists>r. KSpaceRectangularGrid_init sample_defaults 3 2 = Inr r
      \<and> points (self r) =
           Inr [PyTuple [PyFloat (- 1 / 2), PyFloat (- 1 / 2), PyFloat 0],
                PyTuple [PyFloat 0, PyFloat (- 1 / 2), PyFloat 0],
                PyTuple [PyFloat (1 / 2), PyFloat (- 1 / 2), PyFloat 0],
                PyTuple [PyFloat (- 1 / 2), PyFloat (1 / 2), PyFloat 0],
                PyTuple [PyFloat 0, PyFloat (1 / 2), PyFloat 0],
                PyTuple [PyFloat (1 / 2), PyFloat (1 / 2), PyFloat 0]]
      \<and> k_interpolation (self r) = 0
      \<and> extras (self r) ''x_steps'' = Some (PyInt 3)
      \<and> extras (self r) ''y_steps'' = Some (PyInt 2))
   \<and> KSpaceRectangularGrid_init sample_defaults 3 (- 2) = Inl ValueError
   \<and> KSpaceRectangularGrid_init sample_defaults (- 3) 2 = Inl ValueError
   \<and> (\<exists>r. KSpaceRectangularGrid_init sample_defaults (- 3) 0 = Inr r
        \<and> points (self r) = Inr [])"
proof -
  from rectangular_grid_points [of 3 2 sample_defaults]
  obtain r xs ys where r: "KSpaceRectangularGrid_init sample_defaults 3 2 = Inr r"
    and xs: "linspace (- 1 / 2) (1 / 2) 3 = Inr xs"
    and ys: "linspace (- 1 / 2) (1 / 2) 2 = Inr ys"
    and p: "points (self r) = Inr (spec_grid xs ys)"
    and k: "k_interpolation (self r) = 0"
    and e: "extras (self r) ''x_steps'' = Some (PyInt 3)"
      "extras (self r) ''y_steps'' = Some (PyInt 2)"
    by auto
  from xs ys linspace_3 linspace_2 have "xs = [- 1 / 2, 0, 1 / 2]" and "ys = [- 1 / 2, 1 / 2]"
    by simp_all
  with p have "points (self r) =
           Inr [PyTuple [PyFloat (- 1 / 2), PyFloat (- 1 / 2), PyFloat 0],
                PyTuple [PyFloat 0, PyFloat (- 1 / 2), PyFloat 0],
                PyTuple [PyFloat (1 / 2), PyFloat (- 1 / 2), PyFloat 0],
                PyTuple [PyFloat (- 1 / 2), PyFloat (1 / 2), PyFloat 0],
                PyTuple [PyFloat 0, PyFloat (1 / 2), PyFloat 0],
                PyTuple [PyFloat (1 / 2), PyFloat (1 / 2), PyFloat 0]]"
    by (simp add: spec_grid_def)
  with r k e rectangular_grid_points [of 3 "- 2" sample_defaults]
    rectangular_grid_points [of "- 3" 2 sample_defaults]
    rectangular_grid_points [of "- 3" 0 sample_defaults]
  show ?thesis by simp
qed

text \<open>
  The claim C8 as it was stated fails for a single step, for a negative step
  count, and in the exact spacing.  With one step in each direction the only
  point is \<open>(-0.5, -0.5, 0.0)\<close>: the samples do not reach 0.5.  With
  \<open>x_steps = y_steps = -1\<close> the product of the step counts is 1, but \<open>linspace\<close>
  raises ValueError and there is no path.  With four \<open>x\<close> steps the samples are
  -0.5, -0.16666666666666669, 0.16666666666666663 and 0.5: the last gap is
  larger than the first two.
\<close>

theorem rectangular_grid_degenerate:
  "KSpaceRectangularGrid_init sample_defaults 1 1 =
     Inr \<lparr> self = \<lparr> k_interpolation = 0, use_uniform_interpolation = False,
                     points_list = [PyTuple [PyFloat (- 1 / 2), PyFloat (- 1 / 2), PyFloat 0]],
                     point_labels = [],
                     extras = [''x_steps'' \<mapsto> PyInt 1, ''y_steps'' \<mapsto> PyInt 1] \<rparr>,
            point_labels_arg = [], warnings = [] \<rparr>
   \<and> KSpaceRectangularGrid_init sample_defaults (- 1) (- 1) = Inl ValueError
   \<and> KSpaceRectangularGrid_init sample_defaults 4 1 =
     Inr \<lparr> self = \<lparr> k_interpolation = 0, use_uniform_interpolation = False,
                     points_list =
                       [PyTuple [PyFloat (- 1 / 2), PyFloat (- 1 / 2), PyFloat 0],
                        PyTuple [PyFloat (- 3002399751580331 / 2 ^ 54), PyFloat (- 1 / 2),
                                 PyFloat 0],
                        PyTuple [PyFloat (1501199875790165 / 2 ^ 53), PyFloat (- 1 / 2),
                                 PyFloat 0],
                        PyTuple [PyFloat (1 / 2), PyFloat (- 1 / 2), PyFloat 0]],
                     point_labels = [],
                     extras = [''x_steps'' \<mapsto> PyInt 4, ''y_steps'' \<mapsto> PyInt 1] \<rparr>,
            point_labels_arg = [], warnings = [] \<rparr>"
proof -
  have a: "grid_points 1 1 = Inr (spec_grid [- 1 / 2] [- 1 / 2])"
    by (rule grid_points_eq [OF linspace_1 linspace_1])
  have b: "grid_points (- 1) (- 1) = Inl ValueError"
    by (simp add: grid_points_negative_y)
  have c: "grid_points 4 1 =
      Inr (spec_grid [- 1 / 2, - 3002399751580331 / 2 ^ 54, 1501199875790165 / 2 ^ 53, 1 / 2]
             [- 1 / 2])"
    by (rule grid_points_eq [OF linspace_4 linspace_1])
  show ?thesis
    by (simp add: KSpaceRectangularGrid_init_def a b c spec_grid_def KSpace_init_eq
        spec_stored_labels_def spec_warnings_def sample_defaults_def)
qed

text \<open>
  C9, as amended: after construction the stored label list is empty or exactly
  as long as the stored point list: it is the supplied list, padded with empty
  strings when it is not empty and shorter than the point list, and cut to the
  number of points (\<open>spec_stored_labels\<close>).  Every method call leaves an object
  with this property an object with this property, and so does every sequence
  of calls on the constructed path.  On a path constructed without a keyword
  argument named \<open>has_labels\<close> or \<open>points\<close>, \<open>has_labels()\<close> is true exactly when
  the stored label list is not empty.
\<close>

theorem stored_labels_invariant:
  "\<exists>r. KSpace_init d pts k u ls kw = Inr r
      \<and> (length (point_labels (self r)) = 0
           \<or> length (point_labels (self r)) = length (points_list (self r)))
      \<and> point_labels (self r) = spec_stored_labels (length (points_list (self r))) ls
      \<and> (\<forall>k' m. labels_invariant k' \<longrightarrow> labels_invariant (snd (call fs items c m k')))
      \<and> (\<forall>ms. labels_invariant (after_calls fs items c ms (self r)))
      \<and> (kw ''has_labels'' = None \<and> kw ''points'' = None \<longrightarrow>
            (\<exists>h. has_labels (self r) = Inr h \<and> (truthy h \<longleftrightarrow> point_labels (self r) \<noteq> [])))"
proof -
  obtain r where r: "KSpace_init d pts k u ls kw = Inr r"
    by (simp add: KSpace_init_eq)
  note wf = init_well_formed [OF r]
  from r have st: "point_labels (self r) = spec_stored_labels (length (points_list (self r))) ls"
    by (auto simp: KSpace_init_eq)
  from wf(2) have inv: "labels_invariant (self r)"
    by (auto simp: labels_invariant_def)
  have h: "\<exists>h. has_labels (self r) = Inr h \<and> (truthy h \<longleftrightarrow> point_labels (self r) \<noteq> [])"
    if "kw ''has_labels'' = None \<and> kw ''points'' = None"
    using that wf(2,5) by (auto simp: has_labels_eq)
  from r wf(2) st inv h show ?thesis
    by (intro exI [of _ r]) auto
qed

theorem stored_labels_invariant_witness:
  "(\<exists>r. KSpace_init sample_defaults [PyInt 0, PyInt 1, PyInt 2] 0 False [''a''] Map.empty = Inr r
       \<and> point_labels (self r) = [''a'', [], []]
       \<and> labels_invariant (self r)
       \<and> labels_invariant (snd (call sample_py_str (\<lambda>k. []) sample_defaults M_str (self r)))
       \<and> has_labels (self r) = Inr (PyBool True)) \<and>
   (\<exists>r. KSpace_init sample_defaults [PyInt 0, PyInt 1] 0 False [''a'', ''b'', ''c''] Map.empty
          = Inr r
       \<and> point_labels (self r) = [''a'', ''b''] \<and> has_labels (self r) = Inr (PyBool True)) \<and>
   (\<exists>r. KSpace_init sample_defaults [PyInt 0, PyInt 1] 0 False [] Map.empty = Inr r
       \<and> point_labels (self r) = [] \<and> has_labels (self r) = Inr (PyInt 0))"
  using stored_labels_invariant [of sample_defaults "[PyInt 0, PyInt 1, PyInt 2]" 0 False
      "[''a'']" Map.empty sample_py_str "\<lambda>k. []" sample_defaults]
    stored_labels_invariant [of sample_defaults "[PyInt 0, PyInt 1]" 0 False
      "[''a'', ''b'', ''c'']" Map.empty sample_py_str "\<lambda>k. []" sample_defaults]
    stored_labels_invariant [of sample_defaults "[PyInt 0, PyInt 1]" 0 False "[]" Map.empty
      sample_py_str "\<lambda>k. []" sample_defaults]
  by (auto simp: KSpace_init_eq spec_stored_labels_def has_labels_eq labels_invariant_def)

text \<open>
  The last part of the claim C9 as it was stated fails for a path constructed
  with labels and a keyword argument named \<open>points\<close>, or with a keyword argument
  named \<open>has_labels\<close>: the stored label list is not empty, and \<open>has_labels()\<close>
  raises TypeError.
\<close>

theorem has_labels_shadowed:
  "KSpace_init sample_defaults [PyInt 0, PyInt 1] 0 False [''a'', ''b'']
        [''points'' \<mapsto> PyInt 5] =
     Inr \<lparr> self = two_point_path 0 [''a'', ''b''] [''points'' \<mapsto> PyInt 5],
            point_labels_arg = [''a'', ''b''], warnings = [] \<rparr>
   \<and> point_labels (two_point_path 0 [''a'', ''b''] [''points'' \<mapsto> PyInt 5]) = [''a'', ''b'']
   \<and> has_labels (two_point_path 0 [''a'', ''b''] [''points'' \<mapsto> PyInt 5]) = Inl TypeError
   \<and> KSpace_init sample_defaults [PyInt 0, PyInt 1] 0 False [''a'', ''b'']
        [''has_labels'' \<mapsto> PyInt 5] =
     Inr \<lparr> self = two_point_path 0 [''a'', ''b''] [''has_labels'' \<mapsto> PyInt 5],
            point_labels_arg = [''a'', ''b''], warnings = [] \<rparr>
   \<and> has_labels (two_point_path 0 [''a'', ''b''] [''has_labels'' \<mapsto> PyInt 5]) = Inl TypeError"
  by (simp add: KSpace_init_eq two_point_path_def spec_stored_labels_def spec_warnings_def
      sample_defaults_def has_labels_eq)

text \<open>
  C10: when the caller's label list is not empty and shorter than the
  normalized point list, the constructor extends that list object with empty
  strings up to the number of points; an empty list, and a list at least as
  long as the point list, is left as it was.
\<close>

theorem caller_labels_extended:
  "\<exists>r. KSpace_init d pts k u ls kw = Inr r
      \<and> (ls \<noteq> [] \<and> length ls < length (points_list (self r)) \<longrightarrow>
            point_labels_arg r = ls @ replicate (length (points_list (self r)) - length ls) [])
      \<and> (ls = [] \<or> length (points_list (self r)) \<le> length ls \<longrightarrow> point_labels_arg r = ls)"
  by (auto simp: KSpace_init_eq)

theorem caller_labels_extended_witness:
  "(\<exists>r. KSpace_init sample_defaults [PyInt 0, PyInt 1, PyInt 2] 0 False [''a''] Map.empty = Inr r
       \<and> point_labels_arg r = [''a'', [], []]) \<and>
   (\<exists>r. KSpace_init sample_defaults [PyInt 0, PyInt 1] 0 False [''a'', ''b'', ''c''] Map.empty
          = Inr r
       \<and> point_labels_arg r = [''a'', ''b'', ''c''] \<and> point_labels (self r) = [''a'', ''b'']) \<and>
   (\<exists>r. KSpace_init sample_defaults [PyInt 0, PyInt 1] 0 False [] Map.empty = Inr r
       \<and> point_labels_arg r = [])"
  using caller_labels_extended [of sample_defaults "[PyInt 0, PyInt 1, PyInt 2]" 0 False
      "[''a'']" Map.empty]
    caller_labels_extended [of sample_defaults "[PyInt 0, PyInt 1]" 0 False
      "[''a'', ''b'', ''c'']" Map.empty]
    caller_labels_extended [of sample_defaults "[PyInt 0, PyInt 1]" 0 False "[]" Map.empty]
  by (auto simp: KSpace_init_eq spec_stored_labels_def)

end
